theory Spec2Isabelle
  imports Complex_Main "HOL-Library.AList"
begin

section \<open>The worker runtime of syft/workers/base.py\<close>

text \<open>
  A shallow embedding of \<^verbatim>\<open>BaseWorker\<close>. Methods that mutate \<^verbatim>\<open>self\<close> take the worker
  and return it updated; a raised exception is the \<open>Inl\<close> branch of the result, and the
  state at the moment of the raise is returned beside it, as Python keeps the mutations
  made before an exception.
\<close>

subsection \<open>Values\<close>

text \<open>Object ids, worker ids and query terms are \<^verbatim>\<open>Union[str, int]\<close>.\<close>

datatype key = KInt int | KStr string

text \<open>
  The exceptions raised in base.py. \<^verbatim>\<open>ResponseSignatureError\<close> carries
  \<^verbatim>\<open>ids_generated\<close>, which is \<^verbatim>\<open>None\<close> when the exception is raised without an argument.
\<close>

datatype exn =
    ResponseSignatureError "key list option"
  | NotImplementedError
  | AssertionError
  | WorkerNotFoundException
  | ObjectNotFoundError key
  | GetNotPermittedError
  | PlanCommandUnknownError string
  | TypeError
  | OtherError string

text \<open>The credentials passed as \<^verbatim>\<open>user\<close> in an object request (\<^verbatim>\<open>None\<close> by default).\<close>

type_synonym user = "string option"

text \<open>
  \<^verbatim>\<open>obj.child\<close>: the field is \<open>Some b\<close> when the child has
  \<^verbatim>\<open>set_garbage_collect_data\<close> and its flag \<^verbatim>\<open>garbage_collect_data\<close> is \<open>b\<close>, and \<open>None\<close>
  when the child has no such method.
\<close>

datatype child = Child (garbage_collect_data: "bool option")

text \<open>
  Modelled from the spec: the classes of the stored objects are not in base.py. By the
  spec (section 6) an object may expose \<^verbatim>\<open>allow(requester) -> bool\<close>; the method is given
  here by the users it admits or by the users it refuses.
\<close>

datatype permission = AllowUsers "user list" | DenyUsers "user list"

definition permits :: "permission \<Rightarrow> user \<Rightarrow> bool" where
  "permits p u = (case p of AllowUsers us \<Rightarrow> u \<in> set us | DenyUsers us \<Rightarrow> u \<notin> set us)"

text \<open>
  A stored object, with the attributes base.py reads or writes. An optional attribute
  (\<^verbatim>\<open>hasattr\<close>) is an option. \<open>truthy\<close> is \<^verbatim>\<open>bool(obj)\<close>, which \<^verbatim>\<open>search\<close> tests;
  \<open>pointable\<close> is \<^verbatim>\<open>hasattr(obj, "create_pointer") and not isinstance(obj, sy.Protocol)\<close>;
  \<open>payload\<close> stands for the data the object holds.
\<close>

record obj =
  obj_id :: key
  tags :: "string list"
  truthy :: bool
  child :: "child option"
  is_private :: "bool option"
  allow :: "permission option"
  origin :: "key option"
  id_at_origin :: "key option"
  pointable :: bool
  payload :: "int list"

text \<open>
  A reference to a worker object: the \<^verbatim>\<open>id\<close> read through it, and the identity of the
  object it refers to.
\<close>

datatype wref = WRef (wref_id: key) (wref_addr: nat)

text \<open>The argument of \<^verbatim>\<open>get_worker\<close>: an id, an id as bytes, or a worker object.\<close>

datatype id_or_worker = AnId key | ABytes string | AWorker wref

text \<open>What \<^verbatim>\<open>get_worker\<close> returns: a worker object, or the raw id it could not resolve.\<close>

datatype resolved = Worker wref | Unresolved key

subsection \<open>The object store\<close>

text \<open>
  Modelled from the spec: the class \<^verbatim>\<open>ObjectStore\<close> (syft.generic.object_storage) is not
  in base.py. The spec (sections 2 and 4.1) describes it as a per-worker map from object
  id to object plus a tag index that is maintained on every register and remove. The
  map \<^verbatim>\<open>_objects\<close> is an association list with distinct keys, in insertion order as a
  Python dict; the tag index \<^verbatim>\<open>_tag_to_object_ids\<close> is computed from the tags of the
  stored objects.
\<close>

type_synonym object_store = "(key \<times> obj) list"

text \<open>
  Modelled from the spec: \<^verbatim>\<open>ObjectStore.get_obj\<close>, "get(id) -> Entry | NotFound", with
  \<^verbatim>\<open>ObjectNotFound\<close> for a get on an absent id (spec section 7).
\<close>

definition ObjectStore_get_obj :: "object_store \<Rightarrow> key \<Rightarrow> exn + obj" where
  "ObjectStore_get_obj s k =
     (case map_of s k of None \<Rightarrow> Inl (ObjectNotFoundError k) | Some ob \<Rightarrow> Inr ob)"

text \<open>Modelled from the spec: \<^verbatim>\<open>ObjectStore.find_by_id\<close>, the entry of the id or \<^verbatim>\<open>None\<close>.\<close>

definition find_by_id :: "object_store \<Rightarrow> key \<Rightarrow> obj option" where
  "find_by_id s k = map_of s k"

text \<open>
  Modelled from the spec: \<^verbatim>\<open>ObjectStore.find_by_tag\<close>, "exact tag membership": the stored
  objects whose tag set contains the term. Tags are strings (spec section 3), so an
  integer term matches no tag.
\<close>

definition find_by_tag :: "object_store \<Rightarrow> key \<Rightarrow> obj list" where
  "find_by_tag s q =
     (case q of
        KStr t \<Rightarrow> filter (\<lambda>ob. t \<in> set (tags ob)) (map snd s)
      | KInt n \<Rightarrow> [])"

text \<open>
  Modelled from the spec: the tag index \<^verbatim>\<open>ObjectStore._tag_to_object_ids\<close>, every tag
  carried by a stored object with the ids of the objects that carry it.
\<close>

definition tag_to_object_ids :: "object_store \<Rightarrow> (string \<times> key list) list" where
  "tag_to_object_ids s =
     map (\<lambda>t. (t, map fst (filter (\<lambda>(k, ob). t \<in> set (tags ob)) s)))
         (remdups (concat (map (\<lambda>(k, ob). tags ob) s)))"

text \<open>
  Modelled from the spec: \<^verbatim>\<open>ObjectStore.de_register_obj\<close>, "removes ownership bookkeeping
  without deleting the value": the entry under the object's id leaves the store. The
  argument is what \<^verbatim>\<open>BaseWorker.get_obj\<close> returned; for \<^verbatim>\<open>None\<close> there is no entry to
  remove.
\<close>

definition ObjectStore_de_register_obj :: "object_store \<Rightarrow> obj option \<Rightarrow> object_store" where
  "ObjectStore_de_register_obj s x =
     (case x of None \<Rightarrow> s | Some ob \<Rightarrow> AList.delete (obj_id ob) s)"

subsection \<open>The worker\<close>

text \<open>
  The attributes of \<^verbatim>\<open>self\<close> that the modelled methods use; the dict
  \<^verbatim>\<open>_known_workers\<close> is an association list with distinct keys. \<open>worker_addr\<close> is the identity
  of the worker object, so that \<^verbatim>\<open>return self\<close> is a reference like the ones kept in
  \<^verbatim>\<open>_known_workers\<close>.
\<close>

record worker =
  worker_id :: key
  worker_addr :: nat
  object_store :: object_store
  known_workers :: "(key \<times> wref) list"
  is_client_worker :: bool

definition self_ref :: "worker \<Rightarrow> wref" where
  "self_ref w = WRef (worker_id w) (worker_addr w)"

subsection \<open>get_obj, is_object_none, respond_to_obj_req\<close>

text \<open>
  \<^verbatim>\<open>get_obj\<close> (lines 686-705). The stored object is the one whose child is toggled, so
  the store holds the updated object afterwards. The toggle is forced before the
  \<^verbatim>\<open>private\<close> test.

  Modelled from the spec: \<^verbatim>\<open>set_garbage_collect_data(value=False)\<close> is a method of the
  pointer classes, not of base.py; by the spec it forces the toggle to "do not
  auto-collect", here \<open>Child (Some False)\<close>.
\<close>

definition get_obj :: "worker \<Rightarrow> key \<Rightarrow> (exn + obj option) \<times> worker" where
  "get_obj w k =
     (case ObjectStore_get_obj (object_store w) k of
        Inl e \<Rightarrow> (Inl e, w)
      | Inr ob \<Rightarrow>
          (case child ob of
             Some (Child (Some b)) \<Rightarrow>
               (let ob' = ob\<lparr>child := Some (Child (Some False))\<rparr>;
                    w' = w\<lparr>object_store := AList.update k ob' (object_store w)\<rparr>
                in if is_private ob' = Some True then (Inr None, w') else (Inr (Some ob'), w'))
           | _ \<Rightarrow>
               if is_private ob = Some True then (Inr None, w) else (Inr (Some ob), w)))"

text \<open>\<^verbatim>\<open>is_object_none\<close> (lines 944-950), applied to \<^verbatim>\<open>msg.object_id\<close>.\<close>

definition is_object_none :: "worker \<Rightarrow> key \<Rightarrow> (exn + bool) \<times> worker" where
  "is_object_none w k =
     (if map_of (object_store w) k = None then (Inl (ObjectNotFoundError k), w)
      else (case get_obj w k of
              (Inl e, w') \<Rightarrow> (Inl e, w')
            | (Inr x, w') \<Rightarrow> (Inr (x = None), w')))"

text \<open>\<^verbatim>\<open>de_register_obj\<close> (lines 739-749).\<close>

definition de_register_obj :: "worker \<Rightarrow> obj option \<Rightarrow> worker" where
  "de_register_obj w x =
     (if \<not> is_client_worker w
      then w\<lparr>object_store := ObjectStore_de_register_obj (object_store w) x\<rparr>
      else w)"

text \<open>
  \<^verbatim>\<open>respond_to_obj_req\<close> (lines 707-722), applied to the fields of the message.
  \<^verbatim>\<open>hasattr(obj, "allow")\<close> is false for \<^verbatim>\<open>None\<close>.
\<close>

definition denied :: "obj option \<Rightarrow> user \<Rightarrow> bool" where
  "denied x u =
     (case x of
        None \<Rightarrow> False
      | Some ob \<Rightarrow> (case allow ob of None \<Rightarrow> False | Some p \<Rightarrow> \<not> permits p u))"

definition respond_to_obj_req :: "worker \<Rightarrow> key \<Rightarrow> user \<Rightarrow> string \<Rightarrow> (exn + obj option) \<times> worker" where
  "respond_to_obj_req w k u reason =
     (case get_obj w k of
        (Inl e, w') \<Rightarrow> (Inl e, w')
      | (Inr x, w') \<Rightarrow>
          if denied x u then (Inl GetNotPermittedError, w')
          else (Inr x, de_register_obj w' x))"

subsection \<open>search\<close>

text \<open>
  The query is a single term or a list of terms. A Python set of objects is a list
  without duplicates; \<^verbatim>\<open>list(results)\<close> has the order of the set, which Python fixes by
  the hashes, and the model lists the hits in store order instead.
\<close>

datatype query = QTerm key | QList "key list"

text \<open>
  The test \<^verbatim>\<open>if result_by_id\<close> of line 1095 is a truth test: it fails for \<^verbatim>\<open>None\<close> and for
  an object that is false as a boolean. \<open>id_match\<close> is the object when the test passes.
\<close>

definition id_match :: "object_store \<Rightarrow> key \<Rightarrow> obj option" where
  "id_match s query_item =
     (case find_by_id s query_item of
        None \<Rightarrow> None
      | Some result_by_id \<Rightarrow> if truthy result_by_id then Some result_by_id else None)"

text \<open>
  The loop of lines 1089-1105. \<open>results\<close> is \<open>None\<close> for Python's \<^verbatim>\<open>None\<close>;
  \<^verbatim>\<open>if results\<close> is a truth test as well, so \<^verbatim>\<open>None\<close> and the empty set both take the
  else branch. The \<^verbatim>\<open>break\<close> leaves the loop with the single id match as the result.
\<close>

fun search_loop :: "object_store \<Rightarrow> key list \<Rightarrow> obj list option \<Rightarrow> obj list option" where
  "search_loop s [] results = results"
| "search_loop s (query_item # rest) results =
     (case id_match s query_item of
        Some result_by_id \<Rightarrow> Some [result_by_id]
      | None \<Rightarrow>
          (let results_by_tag = remdups (find_by_tag s query_item)
           in search_loop s rest
                (Some (case results of
                         None \<Rightarrow> results_by_tag
                       | Some r \<Rightarrow>
                           if r \<noteq> [] then filter (\<lambda>x. x \<in> set results_by_tag) r
                           else results_by_tag))))"

text \<open>The list comprehension of line 1087, one \<^verbatim>\<open>get_obj\<close> after the other.\<close>

fun get_objs :: "worker \<Rightarrow> key list \<Rightarrow> (exn + obj option list) \<times> worker" where
  "get_objs w [] = (Inr [], w)"
| "get_objs w (k # ks) =
     (case get_obj w k of
        (Inl e, w') \<Rightarrow> (Inl e, w')
      | (Inr x, w') \<Rightarrow>
          (case get_objs w' ks of
             (Inl e, w'') \<Rightarrow> (Inl e, w'')
           | (Inr xs, w'') \<Rightarrow> (Inr (x # xs), w'')))"

definition finish_search :: "obj list option \<Rightarrow> obj option list" where
  "finish_search results = (case results of None \<Rightarrow> [] | Some r \<Rightarrow> map Some r)"

text \<open>\<^verbatim>\<open>search\<close> (lines 1066-1110).\<close>

definition search :: "worker \<Rightarrow> query \<Rightarrow> (exn + obj option list) \<times> worker" where
  "search w q =
     (case q of
        QTerm t \<Rightarrow> (Inr (finish_search (search_loop (object_store w) [t] None)), w)
      | QList [] \<Rightarrow>
          get_objs w
            (foldl (\<lambda>result_ids (tag, object_ids). List.union result_ids object_ids) []
               (tag_to_object_ids (object_store w)))
      | QList ts \<Rightarrow> (Inr (finish_search (search_loop (object_store w) ts None)), w))"

subsection \<open>The registry of workers\<close>

text \<open>\<^verbatim>\<open>add_worker\<close> (lines 851-898); the warning it logs is not modelled.\<close>

definition add_worker :: "worker \<Rightarrow> wref \<Rightarrow> worker" where
  "add_worker w h = w\<lparr>known_workers := AList.update (wref_id h) h (known_workers w)\<rparr>"

text \<open>\<^verbatim>\<open>_get_worker\<close> (lines 833-836).\<close>

definition get_worker_of_ref :: "worker \<Rightarrow> wref \<Rightarrow> resolved \<times> worker" where
  "get_worker_of_ref w h =
     (if map_of (known_workers w) (wref_id h) = None then (Worker h, add_worker w h)
      else (Worker h, w))"

text \<open>
  \<^verbatim>\<open>_get_worker_based_on_id\<close> (lines 838-849). \<^verbatim>\<open>_known_workers.get(worker_id, worker_id)\<close>
  is the id itself exactly when the id is no key of the registry, a worker object never
  being equal to an id. The warning logged before the id is returned is not modelled.
\<close>

definition get_worker_based_on_id :: "worker \<Rightarrow> key \<Rightarrow> bool \<Rightarrow> exn + resolved" where
  "get_worker_based_on_id w wid fail_hard =
     (if wid = worker_id w then Inr (Worker (self_ref w))
      else (case map_of (known_workers w) wid of
              Some h \<Rightarrow> Inr (Worker h)
            | None \<Rightarrow> if fail_hard then Inl WorkerNotFoundException else Inr (Unresolved wid)))"

text \<open>
  \<^verbatim>\<open>get_worker\<close> (lines 782-831). Bytes are decoded to a string first; the model takes
  the bytes to be ASCII, so the decoding keeps them.
\<close>

definition get_worker :: "worker \<Rightarrow> id_or_worker \<Rightarrow> bool \<Rightarrow> (exn + resolved) \<times> worker" where
  "get_worker w id_or_worker fail_hard =
     (case id_or_worker of
        ABytes b \<Rightarrow> (get_worker_based_on_id w (KStr b) fail_hard, w)
      | AnId wid \<Rightarrow> (get_worker_based_on_id w wid fail_hard, w)
      | AWorker h \<Rightarrow> (case get_worker_of_ref w h of (r, w') \<Rightarrow> (Inr r, w')))"

subsection \<open>Python values, actions and messages\<close>

text \<open>
  The values that travel as arguments, targets and responses. \<open>VPointerTensor\<close> has the
  four keyword arguments that \<^verbatim>\<open>send_command\<close> passes to \<^verbatim>\<open>PointerTensor\<close>: location,
  id_at_location, owner and id. A float is modelled by its value; only its type is used.
\<close>

datatype val =
    VNone
  | VInt int
  | VFloat real
  | VBool bool
  | VStr string
  | VBytes string
  | VObj obj
  | VWorker wref
  | VPointerTensor resolved key wref key
  | VTuple "val list"
  | VList "val list"

type_synonym kwargs = "(string \<times> val) list"

text \<open>\<^verbatim>\<open>ComputationAction\<close> and \<^verbatim>\<open>CommunicationAction\<close>, with the fields base.py reads.\<close>

record computation_action =
  name :: string
  target :: val
  args :: "val list"
  kwargs :: kwargs
  return_ids :: "key list"
  return_value :: bool

datatype action =
    Computation computation_action
  | Communication obj "key list" kwargs

text \<open>The message classes base.py imports and routes, and their types.\<close>

datatype message =
    TensorCommandMessage action
  | PlanCommandMessage string "val list"
  | WorkerCommandMessage string "val list" kwargs "key list"
  | ObjectMessage obj
  | ObjectRequestMessage key user string
  | ForceObjectDeleteMessage key
  | IsNoneMessage key
  | GetShapeMessage key
  | SearchMessage query

datatype message_type =
    TensorCommandMessage_type
  | PlanCommandMessage_type
  | WorkerCommandMessage_type
  | ObjectMessage_type
  | ObjectRequestMessage_type
  | ForceObjectDeleteMessage_type
  | IsNoneMessage_type
  | GetShapeMessage_type
  | SearchMessage_type

fun type_of :: "message \<Rightarrow> message_type" where
  "type_of (TensorCommandMessage a) = TensorCommandMessage_type"
| "type_of (PlanCommandMessage c as) = PlanCommandMessage_type"
| "type_of (WorkerCommandMessage c as kw rids) = WorkerCommandMessage_type"
| "type_of (ObjectMessage ob) = ObjectMessage_type"
| "type_of (ObjectRequestMessage k u r) = ObjectRequestMessage_type"
| "type_of (ForceObjectDeleteMessage k) = ForceObjectDeleteMessage_type"
| "type_of (IsNoneMessage k) = IsNoneMessage_type"
| "type_of (GetShapeMessage k) = GetShapeMessage_type"
| "type_of (SearchMessage q) = SearchMessage_type"

subsection \<open>The message router\<close>

text \<open>The bound methods that the constructor puts into \<^verbatim>\<open>_message_router\<close>.\<close>

datatype handler =
    execute_tensor_command
  | execute_plan_command
  | execute_worker_command
  | handle_object_msg
  | respond_to_obj_req_handler
  | handle_delete_object_msg
  | handle_force_delete_object_msg
  | is_object_none_handler
  | handle_get_shape_message
  | respond_to_search

text \<open>
  A Python dict display evaluates its entries from left to right and stores each one,
  so a key written twice keeps the value of its last entry.
\<close>

definition dict_display :: "('k \<times> 'v) list \<Rightarrow> ('k \<rightharpoonup> 'v)" where
  "dict_display entries = foldl (\<lambda>m (k, v). m(k \<mapsto> v)) Map.empty entries"

text \<open>The entries of the display of \<^verbatim>\<open>self._message_router\<close> (lines 123-134), in order.\<close>

definition message_router_entries :: "(message_type \<times> handler) list" where
  "message_router_entries =
     [(TensorCommandMessage_type, execute_tensor_command),
      (PlanCommandMessage_type, execute_plan_command),
      (WorkerCommandMessage_type, execute_worker_command),
      (ObjectMessage_type, handle_object_msg),
      (ObjectRequestMessage_type, respond_to_obj_req_handler),
      (ForceObjectDeleteMessage_type, handle_delete_object_msg),
      (ForceObjectDeleteMessage_type, handle_force_delete_object_msg),
      (IsNoneMessage_type, is_object_none_handler),
      (GetShapeMessage_type, handle_get_shape_message),
      (SearchMessage_type, respond_to_search)]"

definition message_router :: "message_type \<rightharpoonup> handler" where
  "message_router = dict_display message_router_entries"

text \<open>
  The lookup \<^verbatim>\<open>self._message_router[type(msg)]\<close> of \<^verbatim>\<open>recv_msg\<close> (line 349); \<open>None\<close> is
  Python's \<^verbatim>\<open>KeyError\<close>.
\<close>

definition route :: "message \<Rightarrow> handler option" where
  "route msg = message_router (type_of msg)"

subsection \<open>The world around the worker\<close>

text \<open>
  The methods below also reach state outside \<^verbatim>\<open>self\<close>: the process-wide
  \<^verbatim>\<open>sy.ID_PROVIDER\<close>, the transport and whatever lies behind it. \<open>ext\<close> holds that state,
  of a type the model leaves open.
\<close>

record 'x world =
  self :: worker
  ext :: 'x

text \<open>
  The source of ids handed to \<^verbatim>\<open>hook_args.register_response\<close>: the list
  \<^verbatim>\<open>list(return_ids)\<close>, or the id provider.
\<close>

datatype id_source = IdList "key list" | IdProvider

text \<open>
  What base.py calls but does not define, taken as parameters: the serializer
  (\<^verbatim>\<open>sy.serde\<close>), the abstract \<^verbatim>\<open>_send_msg\<close> of the concrete worker class, the id provider
  (\<^verbatim>\<open>pop\<close>, \<^verbatim>\<open>set_next_ids\<close> with \<^verbatim>\<open>check_ids=False\<close>, \<^verbatim>\<open>start_recording_ids\<close>,
  \<^verbatim>\<open>get_recorded_ids\<close>), \<^verbatim>\<open>hook_args.register_response\<close>, the framework
  (\<^verbatim>\<open>is_inplace_method\<close>, \<^verbatim>\<open>command_guard\<close>), the call of a method found by \<^verbatim>\<open>getattr\<close> on
  a target, the call of a function found by a chain of \<^verbatim>\<open>getattr\<close> from the worker, and
  the \<^verbatim>\<open>create_pointer\<close> of the object's class (object, location, pointer id,
  \<^verbatim>\<open>garbage_collect_data\<close>, further keyword arguments). \<open>'b\<close> is the type of a
  serialized message.
\<close>

record ('x, 'b) collaborators =
  serialize :: "message \<Rightarrow> 'b"
  deserialize :: "'b \<Rightarrow> val"
  send_msg_impl :: "'b \<Rightarrow> resolved \<Rightarrow> 'x world \<Rightarrow> (exn + 'b) \<times> 'x world"
  id_pop :: "'x \<Rightarrow> key \<times> 'x"
  set_next_ids :: "key list \<Rightarrow> 'x \<Rightarrow> 'x"
  start_recording_ids :: "'x \<Rightarrow> 'x"
  get_recorded_ids :: "'x \<Rightarrow> key list \<times> 'x"
  register_response :: "string \<Rightarrow> val \<Rightarrow> id_source \<Rightarrow> 'x world \<Rightarrow> (exn + val) \<times> 'x world"
  is_inplace_method :: "string \<Rightarrow> bool"
  command_guard :: "string \<Rightarrow> exn option"
  call_method :: "val \<Rightarrow> string \<Rightarrow> val list \<Rightarrow> kwargs \<Rightarrow> 'x world \<Rightarrow> (exn + val) \<times> 'x world"
  call_function :: "string list \<Rightarrow> val list \<Rightarrow> kwargs \<Rightarrow> 'x world \<Rightarrow> (exn + val) \<times> 'x world"
  create_pointer ::
    "obj \<Rightarrow> resolved \<Rightarrow> key \<Rightarrow> bool option \<Rightarrow> kwargs \<Rightarrow> 'x world \<Rightarrow> (exn + val) \<times> 'x world"

subsection \<open>Sending\<close>

text \<open>\<^verbatim>\<open>send_msg\<close> (lines 287-318): serialize, send and wait, deserialize the response.\<close>

definition send_msg ::
  "('x, 'b) collaborators \<Rightarrow> 'x world \<Rightarrow> message \<Rightarrow> resolved \<Rightarrow> (exn + val) \<times> 'x world" where
  "send_msg E W msg location =
     (let bin_message = serialize E msg
      in case send_msg_impl E bin_message location W of
           (Inl e, W') \<Rightarrow> (Inl e, W')
         | (Inr bin_response, W') \<Rightarrow> (Inr (deserialize E bin_response), W'))"

text \<open>\<^verbatim>\<open>send_obj\<close> (lines 753-761).\<close>

definition send_obj ::
  "('x, 'b) collaborators \<Rightarrow> 'x world \<Rightarrow> obj \<Rightarrow> resolved \<Rightarrow> (exn + val) \<times> 'x world" where
  "send_obj E W ob location = send_msg E W (ObjectMessage ob) location"

text \<open>The \<^verbatim>\<open>workers\<close> argument of \<^verbatim>\<open>send\<close>: one worker, or a list or tuple of them.\<close>

datatype workers_arg = OneWorker id_or_worker | Workers "id_or_worker list"

text \<open>
  \<^verbatim>\<open>send\<close> (lines 358-452). The three cases of the list are \<^verbatim>\<open>len(workers) > 0\<close> failing,
  \<^verbatim>\<open>len(workers) == 1\<close>, and the \<^verbatim>\<open>else\<close> that raises. The object is passed by value: the
  tag \<^verbatim>\<open>origin\<close>/\<^verbatim>\<open>id_at_origin\<close> is on the copy that is transmitted and cleared on the
  one that is returned.
\<close>

definition send ::
  "('x, 'b) collaborators \<Rightarrow> 'x world \<Rightarrow> obj \<Rightarrow> workers_arg \<Rightarrow> key option \<Rightarrow> bool option \<Rightarrow>
   bool \<Rightarrow> bool \<Rightarrow> kwargs \<Rightarrow> (exn + val) \<times> 'x world" where
  "send E W ob workers ptr_id gc requires_grad create_ptr kw =
     (case (case workers of OneWorker x \<Rightarrow> [x] | Workers xs \<Rightarrow> xs) of
        [] \<Rightarrow> (Inl AssertionError, W)
      | [worker0] \<Rightarrow>
          (case get_worker (self W) worker0 False of
             (Inl e, w1) \<Rightarrow> (Inl e, W\<lparr>self := w1\<rparr>)
           | (Inr worker, w1) \<Rightarrow>
               (let W1 = W\<lparr>self := w1\<rparr>;
                    ob1 = (if requires_grad
                           then ob\<lparr>origin := Some (worker_id w1), id_at_origin := Some (obj_id ob)\<rparr>
                           else ob)
                in case send_obj E W1 ob1 worker of
                     (Inl e, W2) \<Rightarrow> (Inl e, W2)
                   | (Inr r, W2) \<Rightarrow>
                       (let ob2 = (if requires_grad
                                   then ob1\<lparr>origin := None, id_at_origin := None\<rparr>
                                   else ob1)
                        in if \<not> create_ptr then (Inr VNone, W2)
                           else if pointable ob2 then
                             (case (case ptr_id of
                                      None \<Rightarrow> id_pop E (ext W2)
                                    | Some p \<Rightarrow> (p, ext W2)) of
                                (p, x) \<Rightarrow> create_pointer E ob2 worker p gc kw (W2\<lparr>ext := x\<rparr>))
                           else (Inr (VObj ob2), W2))))
      | worker0 # worker1 # others \<Rightarrow> (Inl NotImplementedError, W))"

subsection \<open>Executing a computation action\<close>

text \<open>\<^verbatim>\<open>op_name.split(".")\<close>.\<close>

fun split_dots :: "string \<Rightarrow> string \<Rightarrow> string list" where
  "split_dots acc [] = [rev acc]"
| "split_dots acc (c # cs) =
     (if c = CHR ''.'' then rev acc # split_dots [] cs else split_dots (c # acc) cs)"

text \<open>
  The target of a method call (lines 512-525): \<open>Inr None\<close> is the early \<^verbatim>\<open>return\<close> when
  \<^verbatim>\<open>get_obj\<close> gave \<^verbatim>\<open>None\<close>. \<^verbatim>\<open>type(_self) == int\<close> holds for an int only, not for a bool.
\<close>

definition resolve_target :: "'x world \<Rightarrow> val \<Rightarrow> (exn + val option) \<times> 'x world" where
  "resolve_target W tgt =
     (case tgt of
        VInt n \<Rightarrow>
          (case get_obj (self W) (KInt n) of
             (Inl e, w') \<Rightarrow> (Inl e, W\<lparr>self := w'\<rparr>)
           | (Inr None, w') \<Rightarrow> (Inr None, W\<lparr>self := w'\<rparr>)
           | (Inr (Some ob), w') \<Rightarrow> (Inr (Some (VObj ob)), W\<lparr>self := w'\<rparr>))
      | VStr s \<Rightarrow>
          if s = ''self'' then (Inr (Some (VWorker (self_ref (self W)))), W)
          else (case search (self W) (QTerm (KStr s)) of
                  (Inl e, w') \<Rightarrow> (Inl e, W\<lparr>self := w'\<rparr>)
                | (Inr [Some ob], w') \<Rightarrow> (Inr (Some (VObj ob)), W\<lparr>self := w'\<rparr>)
                | (Inr [None], w') \<Rightarrow> (Inr (Some VNone), W\<lparr>self := w'\<rparr>)
                | (Inr res, w') \<Rightarrow> (Inl AssertionError, W\<lparr>self := w'\<rparr>))
      | other \<Rightarrow> (Inr (Some other), W))"

text \<open>The argument list of the retry after a \<^verbatim>\<open>TypeError\<close> (lines 536-538).\<close>

definition decode_bytes :: "val \<Rightarrow> val" where
  "decode_bytes arg = (case arg of VBytes b \<Rightarrow> VStr b | other \<Rightarrow> other)"

text \<open>
  Lines 504-553: the response of the operation. \<open>VNone\<close> also stands for the two early
  returns, after which the method returns \<^verbatim>\<open>None\<close> as it does for a \<^verbatim>\<open>None\<close> response.
\<close>

definition compute_response ::
  "('x, 'b) collaborators \<Rightarrow> 'x world \<Rightarrow> computation_action \<Rightarrow> (exn + val) \<times> 'x world" where
  "compute_response E W act =
     (if target act \<noteq> VNone then
        (case resolve_target W (target act) of
           (Inl e, W1) \<Rightarrow> (Inl e, W1)
         | (Inr None, W1) \<Rightarrow> (Inr VNone, W1)
         | (Inr (Some t), W1) \<Rightarrow>
             if is_inplace_method E (name act) then
               (case call_method E t (name act) (args act) (kwargs act) W1 of
                  (Inl e, W2) \<Rightarrow> (Inl e, W2)
                | (Inr r, W2) \<Rightarrow> (Inr VNone, W2))
             else
               (case call_method E t (name act) (args act) (kwargs act) W1 of
                  (Inl TypeError, W2) \<Rightarrow>
                    call_method E t (name act) (map decode_bytes (args act)) (kwargs act) W2
                | other \<Rightarrow> other))
      else
        (case command_guard E (name act) of
           Some e \<Rightarrow> (Inl e, W)
         | None \<Rightarrow> call_function E (split_dots [] (name act)) (args act) (kwargs act) W))"

text \<open>\<^verbatim>\<open>isinstance(response, (int, float, bool, str))\<close>.\<close>

definition is_scalar :: "val \<Rightarrow> bool" where
  "is_scalar v =
     (case v of VInt n \<Rightarrow> True | VFloat f \<Rightarrow> True | VBool b \<Rightarrow> True | VStr s \<Rightarrow> True
      | other \<Rightarrow> False)"

text \<open>
  Lines 555-572: registering the response. Only \<^verbatim>\<open>ResponseSignatureError\<close> is caught;
  the handler rebinds the response with the id provider as the source of ids and raises
  the error again with the ids the provider recorded.
\<close>

definition bind_response ::
  "('x, 'b) collaborators \<Rightarrow> 'x world \<Rightarrow> computation_action \<Rightarrow> val \<Rightarrow> (exn + val) \<times> 'x world" where
  "bind_response E W act response =
     (if response \<noteq> VNone then
        (case register_response E (name act) response (IdList (return_ids act)) W of
           (Inr response', W1) \<Rightarrow>
             if return_value act \<or> is_scalar response' then (Inr response', W1)
             else (Inr VNone, W1)
         | (Inl (ResponseSignatureError ids), W1) \<Rightarrow>
             (let W2 = W1\<lparr>ext := start_recording_ids E (set_next_ids E (return_ids act) (ext W1))\<rparr>
              in case register_response E (name act) response IdProvider W2 of
                   (Inl e, W3) \<Rightarrow> (Inl e, W3)
                 | (Inr response', W3) \<Rightarrow>
                     (case get_recorded_ids E (ext W3) of
                        (new_ids, x) \<Rightarrow>
                          (Inl (ResponseSignatureError (Some new_ids)), W3\<lparr>ext := x\<rparr>)))
         | (Inl e, W1) \<Rightarrow> (Inl e, W1))
      else (Inr VNone, W))"

text \<open>\<^verbatim>\<open>execute_computation_action\<close> (lines 495-572).\<close>

definition execute_computation_action ::
  "('x, 'b) collaborators \<Rightarrow> 'x world \<Rightarrow> computation_action \<Rightarrow> (exn + val) \<times> 'x world" where
  "execute_computation_action E W act =
     (case compute_response E W act of
        (Inl e, W1) \<Rightarrow> (Inl e, W1)
      | (Inr response, W1) \<Rightarrow> bind_response E W1 act response)"

subsection \<open>Sending a command\<close>

text \<open>
  The loop of lines 670-678: one \<^verbatim>\<open>PointerTensor\<close> per return id, each with a local id
  popped from the id provider.
\<close>

fun make_pointers ::
  "('x, 'b) collaborators \<Rightarrow> resolved \<Rightarrow> wref \<Rightarrow> key list \<Rightarrow> 'x \<Rightarrow> val list \<times> 'x" where
  "make_pointers E recipient owner [] x = ([], x)"
| "make_pointers E recipient owner (return_id # rest) x =
     (case id_pop E x of
        (i, x1) \<Rightarrow>
          (case make_pointers E recipient owner rest x1 of
             (ps, x2) \<Rightarrow> (VPointerTensor recipient return_id owner i # ps, x2)))"

text \<open>
  Lines 669-684. The argument \<open>ids\<close> is \<^verbatim>\<open>return_ids\<close>; it is \<open>None\<close> when the caught exception carried no ids, and
  iterating over \<^verbatim>\<open>None\<close> is a \<^verbatim>\<open>TypeError\<close>.
\<close>

definition build_responses ::
  "('x, 'b) collaborators \<Rightarrow> 'x world \<Rightarrow> resolved \<Rightarrow> val \<Rightarrow> key list option \<Rightarrow>
   (exn + val) \<times> 'x world" where
  "build_responses E W recipient ret_val ids =
     (if ret_val = VNone \<or> (case ret_val of VBytes b \<Rightarrow> True | other \<Rightarrow> False) then
        (case ids of
           None \<Rightarrow> (Inl TypeError, W)
         | Some rids \<Rightarrow>
             (case make_pointers E recipient (self_ref (self W)) rids (ext W) of
                (responses, x) \<Rightarrow>
                  (Inr (case responses of [p] \<Rightarrow> p | ps \<Rightarrow> VList ps), W\<lparr>ext := x\<rparr>)))
      else (Inr ret_val, W))"

text \<open>
  \<^verbatim>\<open>send_command\<close> (lines 632-684). \<^verbatim>\<open>TensorCommandMessage.computation\<close> builds the message
  around a \<^verbatim>\<open>ComputationAction\<close> of its six arguments.
\<close>

definition send_command ::
  "('x, 'b) collaborators \<Rightarrow> 'x world \<Rightarrow> resolved \<Rightarrow> string \<Rightarrow> val \<Rightarrow> val list \<Rightarrow> kwargs \<Rightarrow>
   key list option \<Rightarrow> bool \<Rightarrow> (exn + val) \<times> 'x world" where
  "send_command E W recipient cmd_name tgt as kw rids rv =
     (case (case rids of
              None \<Rightarrow> (case id_pop E (ext W) of (i, x) \<Rightarrow> ([i], x))
            | Some given \<Rightarrow> (given, ext W)) of
        (return_ids0, x0) \<Rightarrow>
          (let msg = TensorCommandMessage (Computation
                       \<lparr>name = cmd_name, target = tgt, args = as, kwargs = kw,
                        return_ids = return_ids0, return_value = rv\<rparr>)
           in case send_msg E (W\<lparr>ext := x0\<rparr>) msg recipient of
                (Inl (ResponseSignatureError ids_generated), W1) \<Rightarrow>
                  build_responses E W1 recipient VNone ids_generated
              | (Inl e, W1) \<Rightarrow> (Inl e, W1)
              | (Inr ret_val, W1) \<Rightarrow> build_responses E W1 recipient ret_val (Some return_ids0)))"

text \<open>The location, remote id and owner of a \<^verbatim>\<open>PointerTensor\<close>.\<close>

definition pointer_target :: "val \<Rightarrow> (resolved \<times> key \<times> wref) option" where
  "pointer_target v =
     (case v of
        VPointerTensor location id_at_location owner i \<Rightarrow> Some (location, id_at_location, owner)
      | other \<Rightarrow> None)"

subsection \<open>An instance of the collaborators\<close>

text \<open>
  A small instance of what base.py takes from elsewhere, to run the model on concrete
  inputs.
\<close>

text \<open>
  Modelled from the spec: \<^verbatim>\<open>sy.ID_PROVIDER\<close> is not in base.py. The spec asks that the
  ids it generates are fresh and that the ids handed out during a renegotiation are
  recorded. This provider hands out the ids given to \<^verbatim>\<open>set_next_ids\<close> first and
  then counts upwards; while recording is on, every id it hands out is recorded.
\<close>

record id_provider =
  given_ids :: "key list"
  next_fresh :: int
  record_ids :: bool
  recorded_ids :: "key list"

text \<open>Modelled from the spec: \<^verbatim>\<open>ID_PROVIDER.pop\<close>, the next id.\<close>

definition provider_pop :: "id_provider \<Rightarrow> key \<times> id_provider" where
  "provider_pop p =
     (case (case given_ids p of
              [] \<Rightarrow> (KInt (next_fresh p), p\<lparr>next_fresh := next_fresh p + 1\<rparr>)
            | i # rest \<Rightarrow> (i, p\<lparr>given_ids := rest\<rparr>)) of
        (i, p') \<Rightarrow> (i, if record_ids p' then p'\<lparr>recorded_ids := recorded_ids p' @ [i]\<rparr> else p'))"

text \<open>
  Modelled from the spec: the first \<open>n\<close> ids that \<^verbatim>\<open>sy.ID_PROVIDER\<close> hands out when its
  given ids are \<open>g\<close> and its counter is \<open>f\<close>, the given ids first.
\<close>

fun handed_out :: "key list \<Rightarrow> int \<Rightarrow> nat \<Rightarrow> key list" where
  "handed_out g f 0 = []"
| "handed_out [] f (Suc n) = KInt f # handed_out [] (f + 1) n"
| "handed_out (i # g) f (Suc n) = i # handed_out g f n"

text \<open>
  Modelled from the spec: \<^verbatim>\<open>ID_PROVIDER.set_next_ids\<close> with \<^verbatim>\<open>check_ids=False\<close>,
  \<^verbatim>\<open>start_recording_ids\<close> and \<^verbatim>\<open>get_recorded_ids\<close>; reading the recorded ids ends the
  recording.
\<close>

definition provider_set_next_ids :: "key list \<Rightarrow> id_provider \<Rightarrow> id_provider" where
  "provider_set_next_ids ids p = p\<lparr>given_ids := given_ids p @ ids\<rparr>"

definition provider_start_recording_ids :: "id_provider \<Rightarrow> id_provider" where
  "provider_start_recording_ids p = p\<lparr>record_ids := True, recorded_ids := []\<rparr>"

definition provider_get_recorded_ids :: "id_provider \<Rightarrow> key list \<times> id_provider" where
  "provider_get_recorded_ids p = (recorded_ids p, p\<lparr>record_ids := False, recorded_ids := []\<rparr>)"

text \<open>
  Modelled from the spec: \<^verbatim>\<open>ObjectStore.register_obj\<close>, "register(obj, id?) -> ObjectId",
  here for an object that has its id: the object is stored under it.
\<close>

definition ObjectStore_register_obj :: "object_store \<Rightarrow> obj \<Rightarrow> object_store" where
  "ObjectStore_register_obj s ob = AList.update (obj_id ob) ob s"

text \<open>\<^verbatim>\<open>register_obj\<close> (lines 724-737), with \<^verbatim>\<open>obj_id\<close> left at its default.\<close>

definition register_obj :: "worker \<Rightarrow> obj \<Rightarrow> worker" where
  "register_obj w ob =
     (if \<not> is_client_worker w
      then w\<lparr>object_store := ObjectStore_register_obj (object_store w) ob\<rparr>
      else w)"

text \<open>
  Modelled from the spec: \<^verbatim>\<open>hook_args.register_response\<close> is not in base.py. By the spec
  it binds the returned values to the ids of the source. Here every object of the
  response takes the next id of the source and is registered with the worker under it,
  through the worker's \<^verbatim>\<open>register_obj\<close>; a list of ids that runs out raises
  \<^verbatim>\<open>ResponseSignatureError\<close>, the id provider never runs out.
\<close>

fun bind_values ::
  "val list \<Rightarrow> id_source \<Rightarrow> id_provider world \<Rightarrow> (exn + val list) \<times> id_provider world" where
  "bind_values [] src W = (Inr [], W)"
| "bind_values (v # vs) src W =
     (case v of
        VObj ob \<Rightarrow>
          (case (case src of
                   IdList [] \<Rightarrow> None
                 | IdList (i # ids) \<Rightarrow> Some (i, IdList ids, ext W)
                 | IdProvider \<Rightarrow> (case provider_pop (ext W) of (i, p) \<Rightarrow> Some (i, IdProvider, p))) of
             None \<Rightarrow> (Inl (ResponseSignatureError None), W)
           | Some (i, src', p) \<Rightarrow>
               (case bind_values vs src'
                       (W\<lparr>self := register_obj (self W) (ob\<lparr>obj_id := i\<rparr>), ext := p\<rparr>) of
                  (Inl e, W') \<Rightarrow> (Inl e, W')
                | (Inr rs, W') \<Rightarrow> (Inr (VObj (ob\<lparr>obj_id := i\<rparr>) # rs), W')))
      | other \<Rightarrow>
          (case bind_values vs src W of
             (Inl e, W') \<Rightarrow> (Inl e, W')
           | (Inr rs, W') \<Rightarrow> (Inr (other # rs), W')))"

text \<open>
  Modelled from the spec: the values of a response that \<^verbatim>\<open>hook_args.register_response\<close>
  binds to an id, which are the objects of a tuple, or the single object.
\<close>

fun objects_of :: "val list \<Rightarrow> obj list" where
  "objects_of [] = []"
| "objects_of (v # vs) = (case v of VObj ob \<Rightarrow> ob # objects_of vs | other \<Rightarrow> objects_of vs)"

definition response_objects :: "val \<Rightarrow> obj list" where
  "response_objects response =
     (case response of VTuple vs \<Rightarrow> objects_of vs | VObj ob \<Rightarrow> [ob] | other \<Rightarrow> [])"

text \<open>
  Modelled from the spec: the shape test of \<^verbatim>\<open>hook_args.register_response\<close>, "bind
  returned value(s) to exactly len(return_ids) pointers". A response without objects has
  nothing to bind and matches any list of ids; the id provider matches any response.
\<close>

definition shape_matches :: "val \<Rightarrow> id_source \<Rightarrow> bool" where
  "shape_matches response src =
     (case src of
        IdProvider \<Rightarrow> True
      | IdList ids \<Rightarrow>
          response_objects response = [] \<or> length (response_objects response) = length ids)"

text \<open>
  Modelled from the spec: \<^verbatim>\<open>hook_args.register_response\<close>. A response whose shape does
  not match the ids aborts the binding with \<^verbatim>\<open>ResponseSignatureError\<close> before anything is
  bound; otherwise the objects of a tuple, or the single object, are bound, and any
  other value has nothing to bind.
\<close>

definition bind_register_response ::
  "string \<Rightarrow> val \<Rightarrow> id_source \<Rightarrow> id_provider world \<Rightarrow> (exn + val) \<times> id_provider world" where
  "bind_register_response attr response src W =
     (if \<not> shape_matches response src then (Inl (ResponseSignatureError None), W)
      else
        (case response of
           VTuple vs \<Rightarrow>
             (case bind_values vs src W of
                (Inl e, W') \<Rightarrow> (Inl e, W')
              | (Inr rs, W') \<Rightarrow> (Inr (VTuple rs), W'))
         | VObj ob \<Rightarrow>
             (case bind_values [VObj ob] src W of
                (Inl e, W') \<Rightarrow> (Inl e, W')
              | (Inr rs, W') \<Rightarrow>
                  (Inr (case rs of [r] \<Rightarrow> r | more_rs \<Rightarrow> VTuple more_rs), W'))
         | other \<Rightarrow> (Inr other, W)))"

text \<open>
  A framework with two methods on objects and one function: \<^verbatim>\<open>numel\<close> returns the
  number of elements of the payload, \<^verbatim>\<open>clone\<close> returns the object, and
  \<^verbatim>\<open>examples.pack\<close> returns its arguments as a tuple. The serialized form of a message or
  a value is the message or the value itself.
\<close>

datatype wire = WireMessage message | WireVal val

definition example_call_method ::
  "val \<Rightarrow> string \<Rightarrow> val list \<Rightarrow> kwargs \<Rightarrow> id_provider world \<Rightarrow> (exn + val) \<times> id_provider world" where
  "example_call_method t op_name as kw W =
     (case t of
        VObj ob \<Rightarrow>
          if op_name = ''numel'' then (Inr (VInt (int (length (payload ob)))), W)
          else if op_name = ''clone'' then (Inr (VObj ob), W)
          else (Inl (OtherError ''AttributeError''), W)
      | other \<Rightarrow> (Inl (OtherError ''AttributeError''), W))"

definition example_call_function ::
  "string list \<Rightarrow> val list \<Rightarrow> kwargs \<Rightarrow> id_provider world \<Rightarrow> (exn + val) \<times> id_provider world" where
  "example_call_function paths as kw W =
     (if paths = [''examples'', ''pack''] then (Inr (VTuple as), W)
      else (Inl (OtherError ''AttributeError''), W))"

text \<open>
  The collaborators of a plain \<^verbatim>\<open>BaseWorker\<close>, whose \<^verbatim>\<open>_send_msg\<close> raises
  \<^verbatim>\<open>NotImplementedError\<close> (line 210).
\<close>

definition base_collaborators :: "(id_provider, wire) collaborators" where
  "base_collaborators =
     \<lparr>serialize = WireMessage,
      deserialize = (\<lambda>b. case b of WireVal v \<Rightarrow> v | WireMessage m \<Rightarrow> VNone),
      send_msg_impl = (\<lambda>b location W. (Inl NotImplementedError, W)),
      id_pop = provider_pop,
      set_next_ids = provider_set_next_ids,
      start_recording_ids = provider_start_recording_ids,
      get_recorded_ids = provider_get_recorded_ids,
      register_response = bind_register_response,
      is_inplace_method = (\<lambda>op_name. op_name = ''zero_''),
      command_guard =
        (\<lambda>op_name. if op_name = ''examples.pack'' then None else Some (OtherError ''forbidden'')),
      call_method = example_call_method,
      call_function = example_call_function,
      create_pointer =
        (\<lambda>ob location ptr_id gc kw W.
           (Inr (VPointerTensor location (obj_id ob) (self_ref (self W)) ptr_id), W))\<rparr>"

text \<open>
  A worker whose \<^verbatim>\<open>_send_msg\<close> hands the message to the receiver at once, where the
  receiver is the worker itself: a computation command is routed to
  \<^verbatim>\<open>execute_tensor_command\<close> and from there to \<^verbatim>\<open>execute_computation_action\<close>
  (lines 489-493), and an exception of the handler reaches the sender.
\<close>

definition loopback_collaborators :: "(id_provider, wire) collaborators" where
  "loopback_collaborators =
     base_collaborators
       \<lparr>send_msg_impl :=
          (\<lambda>b location W.
             case b of
               WireMessage (TensorCommandMessage (Computation act)) \<Rightarrow>
                 (case execute_computation_action base_collaborators W act of
                    (Inl e, W') \<Rightarrow> (Inl e, W')
                  | (Inr v, W') \<Rightarrow> (Inr (WireVal v), W'))
             | other \<Rightarrow> (Inl NotImplementedError, W))\<rparr>"

subsection \<open>Example workers\<close>

definition plain_obj :: "key \<Rightarrow> string list \<Rightarrow> int list \<Rightarrow> obj" where
  "plain_obj i ts xs =
     \<lparr>obj_id = i, tags = ts, truthy = True, child = None, is_private = None, allow = None,
      origin = None, id_at_origin = None, pointable = True, payload = xs\<rparr>"

text \<open>A worker with three tagged objects, which knows itself and a worker \<^verbatim>\<open>bob\<close>.\<close>

definition alice :: worker where
  "alice =
     \<lparr>worker_id = KStr ''alice'', worker_addr = 0,
      object_store =
        [(KInt 1, plain_obj (KInt 1) [''model''] [1, 2, 3, 4]),
         (KInt 2, plain_obj (KInt 2) [''v1''] []),
         (KInt 3, plain_obj (KInt 3) [''model'', ''v1''] [])],
      known_workers =
        [(KStr ''alice'', WRef (KStr ''alice'') 0), (KStr ''bob'', WRef (KStr ''bob'') 1)],
      is_client_worker = False\<rparr>"

text \<open>
  A worker with a private wrapper around a pointer that collects its data (id 10), a
  wrapper that is not private (id 11), and an object that only its owner may request
  (id 12).
\<close>

definition vault :: worker where
  "vault =
     \<lparr>worker_id = KStr ''vault'', worker_addr = 2,
      object_store =
        [(KInt 10, (plain_obj (KInt 10) [] [])
                     \<lparr>child := Some (Child (Some True)), is_private := Some True\<rparr>),
         (KInt 11, (plain_obj (KInt 11) [] [])\<lparr>child := Some (Child (Some True))\<rparr>),
         (KInt 12, (plain_obj (KInt 12) [] [])\<lparr>allow := Some (AllowUsers [Some ''owner''])\<rparr>)],
      known_workers = [(KStr ''vault'', WRef (KStr ''vault'') 2)],
      is_client_worker = False\<rparr>"

text \<open>The world of \<^verbatim>\<open>alice\<close>, with an id provider that has handed out nothing yet.\<close>

definition alice_world :: "id_provider world" where
  "alice_world =
     \<lparr>self = alice,
      ext = \<lparr>given_ids = [], next_fresh = 1000, record_ids = False, recorded_ids = []\<rparr>\<rparr>"

section \<open>Properties\<close>

subsection \<open>Auxiliary facts\<close>

lemma distinct_set_single: "distinct xs \<Longrightarrow> set xs = {a} \<Longrightarrow> xs = [a]"
proof (cases xs)
  case Nil
  assume "set xs = {a}" with Nil show ?thesis by simp
next
  case (Cons y ys)
  assume d: "distinct xs" and s: "set xs = {a}"
  from s Cons have y: "y = a" by auto
  from d Cons have "y \<notin> set ys" by simp
  moreover from s Cons have "set ys \<subseteq> {a}" by auto
  ultimately have "ys = []" using y by (cases ys) auto
  with y Cons show ?thesis by simp
qed

lemma set_find_by_tag:
  "set (find_by_tag s (KStr t)) = {ob \<in> snd ` set s. t \<in> set (tags ob)}"
  by (auto simp add: find_by_tag_def)

lemma id_match_absent: "map_of s q = None \<Longrightarrow> id_match s q = None"
  by (simp add: id_match_def find_by_id_def)

lemma search_loop_id_match:
  assumes "\<forall>p \<in> set pre. id_match s p = None" and "id_match s q = Some ob"
  shows "search_loop s (pre @ q # post) results = Some [ob]"
  using assms by (induction pre arbitrary: results) (simp_all add: Let_def)

lemma search_loop_step:
  assumes "id_match s t = None" and "r0 \<noteq> []"
  shows "search_loop s (t # ts) (Some r0) =
         search_loop s ts (Some (filter (\<lambda>x. x \<in> set (find_by_tag s t)) r0))"
  using assms by (simp add: Let_def)

lemma search_loop_first:
  assumes "id_match s t = None"
  shows "search_loop s (t # ts) None = search_loop s ts (Some (remdups (find_by_tag s t)))"
  using assms by (simp add: Let_def)

text \<open>
  While no term is an id match and the running intersection stays non-empty, the loop
  intersects the tag matches of the terms.
\<close>

lemma search_loop_tags:
  assumes "\<forall>t \<in> set ts. id_match s t = None"
    and "set r0 \<inter> (\<Inter>t \<in> set (butlast ts). set (find_by_tag s t)) \<noteq> {}"
  shows "\<exists>r. search_loop s ts (Some r0) = Some r \<and>
             set r = set r0 \<inter> (\<Inter>t \<in> set ts. set (find_by_tag s t))"
  using assms
proof (induction ts arbitrary: r0)
  case Nil
  then show ?case by simp
next
  case (Cons t ts)
  let ?r1 = "filter (\<lambda>x. x \<in> set (find_by_tag s t)) r0"
  from Cons.prems(2) have ne: "r0 \<noteq> []" by (cases r0) simp_all
  from Cons.prems(1) have mt: "id_match s t = None" by simp
  have step: "search_loop s (t # ts) (Some r0) = search_loop s ts (Some ?r1)"
    using mt ne by (rule search_loop_step)
  have s1: "set ?r1 = set r0 \<inter> set (find_by_tag s t)" by auto
  show ?case
  proof (cases "ts = []")
    case True
    have "search_loop s (t # ts) (Some r0) = Some ?r1" using step True by simp
    moreover have "set ?r1 = set r0 \<inter> (\<Inter>t \<in> set (t # ts). set (find_by_tag s t))"
      using True s1 by simp
    ultimately show ?thesis by blast
  next
    case False
    then have bl: "butlast (t # ts) = t # butlast ts" by simp
    have "set ?r1 \<inter> (\<Inter>t \<in> set (butlast ts). set (find_by_tag s t)) =
          set r0 \<inter> (\<Inter>t \<in> set (butlast (t # ts)). set (find_by_tag s t))"
      unfolding bl s1 by (simp add: Int_assoc)
    with Cons.prems(2)
    have p2: "set ?r1 \<inter> (\<Inter>t \<in> set (butlast ts). set (find_by_tag s t)) \<noteq> {}" by simp
    from Cons.prems(1) have p1: "\<forall>t \<in> set ts. id_match s t = None" by simp
    from Cons.IH[OF p1 p2] obtain r where r: "search_loop s ts (Some ?r1) = Some r"
      and sr: "set r = set ?r1 \<inter> (\<Inter>t \<in> set ts. set (find_by_tag s t))"
      by blast
    have "search_loop s (t # ts) (Some r0) = Some r" using step r by simp
    moreover have "set r = set r0 \<inter> (\<Inter>t \<in> set (t # ts). set (find_by_tag s t))"
      unfolding sr s1 by (simp add: Int_assoc)
    ultimately show ?thesis by blast
  qed
qed

lemma get_obj_is_client_worker:
  "get_obj w k = (r, w') \<Longrightarrow> is_client_worker w' = is_client_worker w"
  by (auto simp add: get_obj_def Let_def split: sum.splits option.splits child.splits if_splits)

lemma pointer_target_pointer:
  "pointer_target (VPointerTensor location i owner j) = Some (location, i, owner)"
  by (simp add: pointer_target_def)

lemma make_pointers_targets:
  "map pointer_target (fst (make_pointers E recipient owner ids x)) =
   map (\<lambda>i. Some (recipient, i, owner)) ids"
proof (induction ids arbitrary: x)
  case Nil
  show ?case by simp
next
  case (Cons i ids)
  obtain j x1 where p: "id_pop E x = (j, x1)" by (cases "id_pop E x")
  obtain ps x2 where m: "make_pointers E recipient owner ids x1 = (ps, x2)"
    by (cases "make_pointers E recipient owner ids x1")
  from Cons[of x1] m have "map pointer_target ps = map (\<lambda>i. Some (recipient, i, owner)) ids"
    by simp
  then show ?case using p m by (simp add: pointer_target_pointer)
qed

lemma length_handed_out: "length (handed_out g f n) = n"
  by (induction g f n rule: handed_out.induct) simp_all

lemma provider_pop_handed_out:
  "handed_out (given_ids p) (next_fresh p) (Suc n) =
     fst (provider_pop p) #
       handed_out (given_ids (snd (provider_pop p))) (next_fresh (snd (provider_pop p))) n"
  by (cases "given_ids p") (simp_all add: provider_pop_def)

lemma provider_pop_recording:
  "record_ids (snd (provider_pop p)) = record_ids p"
  "recorded_ids (snd (provider_pop p)) =
     (if record_ids p then recorded_ids p @ [fst (provider_pop p)] else recorded_ids p)"
  by (cases "given_ids p"; simp add: provider_pop_def)+

lemma bind_values_provider:
  "\<exists>rs. fst (bind_values vs IdProvider W) = Inr rs
     \<and> self (snd (bind_values vs IdProvider W))
         = foldl register_obj (self W)
             (map (\<lambda>(ob, i). ob\<lparr>obj_id := i\<rparr>)
                (zip (objects_of vs)
                   (handed_out (given_ids (ext W)) (next_fresh (ext W)) (length (objects_of vs)))))
     \<and> record_ids (ext (snd (bind_values vs IdProvider W))) = record_ids (ext W)
     \<and> recorded_ids (ext (snd (bind_values vs IdProvider W)))
         = (if record_ids (ext W)
            then recorded_ids (ext W)
                 @ handed_out (given_ids (ext W)) (next_fresh (ext W)) (length (objects_of vs))
            else recorded_ids (ext W))"
proof (induction vs arbitrary: W)
  case Nil
  show ?case by simp
next
  case (Cons v vs)
  show ?case
  proof (cases "\<exists>ob. v = VObj ob")
    case False
    then have o: "objects_of (v # vs) = objects_of vs" by (cases v) simp_all
    from False have b: "bind_values (v # vs) IdProvider W =
        (case bind_values vs IdProvider W of
           (Inl e, W') \<Rightarrow> (Inl e, W') | (Inr rs, W') \<Rightarrow> (Inr (v # rs), W'))"
      by (cases v) (auto split: prod.splits sum.splits)
    from Cons[of W] obtain rs where r: "fst (bind_values vs IdProvider W) = Inr rs" by blast
    then have "bind_values (v # vs) IdProvider W = (Inr (v # rs), snd (bind_values vs IdProvider W))"
      unfolding b by (cases "bind_values vs IdProvider W") simp
    then show ?thesis using Cons[of W] o by simp
  next
    case True
    then obtain ob where v: "v = VObj ob" by blast
    let ?i = "fst (provider_pop (ext W))"
    let ?p = "snd (provider_pop (ext W))"
    let ?W1 = "W\<lparr>self := register_obj (self W) (ob\<lparr>obj_id := ?i\<rparr>), ext := ?p\<rparr>"
    from Cons[of ?W1] obtain rs where r: "fst (bind_values vs IdProvider ?W1) = Inr rs" by blast
    have b: "bind_values (v # vs) IdProvider W
               = (Inr (VObj (ob\<lparr>obj_id := ?i\<rparr>) # rs), snd (bind_values vs IdProvider ?W1))"
      using r unfolding v
      by (cases "bind_values vs IdProvider ?W1") (simp add: split_beta)
    have h: "handed_out (given_ids (ext W)) (next_fresh (ext W)) (length (objects_of (v # vs)))
               = ?i # handed_out (given_ids ?p) (next_fresh ?p) (length (objects_of vs))"
      unfolding v using provider_pop_handed_out[of "ext W" "length (objects_of vs)"] by simp
    show ?thesis
      unfolding b h using Cons[of ?W1] by (simp add: v provider_pop_recording)
  qed
qed

lemma foldl_register_obj_client:
  "is_client_worker w \<Longrightarrow> foldl register_obj w obs = w"
  by (induction obs) (simp_all add: register_obj_def)

lemma foldl_register_obj_store:
  "\<not> is_client_worker w \<Longrightarrow>
   map_of (object_store (foldl register_obj w obs))
     = map_of (rev (map (\<lambda>ob. (obj_id ob, ob)) obs) @ object_store w)"
proof (induction obs arbitrary: w)
  case Nil
  show ?case by simp
next
  case (Cons ob obs)
  have c: "\<not> is_client_worker (register_obj w ob)" using Cons.prems by (simp add: register_obj_def)
  have "map_of (object_store (register_obj w ob)) = (map_of (object_store w))(obj_id ob \<mapsto> ob)"
    using Cons.prems by (simp add: register_obj_def ObjectStore_register_obj_def update_conv')
  then show ?case using Cons.IH[OF c] by (simp add: map_add_def fun_eq_iff split: option.splits)
qed

lemma registered_under_ids:
  assumes nc: "\<not> is_client_worker w" and d: "distinct ids" and l: "length ids = length obs"
    and j: "j < length ids"
  shows "map_of (object_store (foldl register_obj w (map (\<lambda>(ob, i). ob\<lparr>obj_id := i\<rparr>) (zip obs ids))))
           (ids ! j) = Some ((obs ! j)\<lparr>obj_id := ids ! j\<rparr>)"
proof -
  let ?bs = "map (\<lambda>(ob, i). ob\<lparr>obj_id := i\<rparr>) (zip obs ids)"
  let ?kv = "rev (map (\<lambda>ob. (obj_id ob, ob)) ?bs)"
  have keys: "map fst ?kv = rev ids"
    using l by (simp add: rev_map[symmetric] split_beta o_def)
  then have dk: "distinct (map fst ?kv)" using d by simp
  let ?ps = "map (\<lambda>ob. (obj_id ob, ob)) ?bs"
  have len: "j < length ?ps" using j l by simp
  have nth: "?ps ! j = (ids ! j, (obs ! j)\<lparr>obj_id := ids ! j\<rparr>)" using j l by simp
  have "?ps ! j \<in> set ?ps" using len by (rule nth_mem)
  then have "(ids ! j, (obs ! j)\<lparr>obj_id := ids ! j\<rparr>) \<in> set ?ps" by (simp only: nth)
  then have "(ids ! j, (obs ! j)\<lparr>obj_id := ids ! j\<rparr>) \<in> set ?kv" by (simp only: set_rev)
  then have "map_of ?kv (ids ! j) = Some ((obs ! j)\<lparr>obj_id := ids ! j\<rparr>)"
    using dk by (rule map_of_is_SomeI[rotated])
  then show ?thesis
    using foldl_register_obj_store[OF nc, of ?bs] by (simp add: map_add_def)
qed

lemma bind_register_response_provider:
  assumes ne: "response_objects response \<noteq> []"
  shows "\<exists>r. fst (bind_register_response a response IdProvider W) = Inr r
     \<and> self (snd (bind_register_response a response IdProvider W))
         = foldl register_obj (self W)
             (map (\<lambda>(ob, i). ob\<lparr>obj_id := i\<rparr>)
                (zip (response_objects response)
                   (handed_out (given_ids (ext W)) (next_fresh (ext W))
                      (length (response_objects response)))))
     \<and> recorded_ids (ext (snd (bind_register_response a response IdProvider W)))
         = (if record_ids (ext W)
            then recorded_ids (ext W)
                 @ handed_out (given_ids (ext W)) (next_fresh (ext W))
                     (length (response_objects response))
            else recorded_ids (ext W))"
proof -
  have "\<exists>vs. objects_of vs = response_objects response
          \<and> (\<exists>f. bind_register_response a response IdProvider W
                   = (case bind_values vs IdProvider W of
                        (Inl e, W') \<Rightarrow> (Inl e, W')
                      | (Inr rs, W') \<Rightarrow> (Inr (f rs), W')))"
  proof (cases response)
    case (VTuple vs)
    then have "objects_of vs = response_objects response" by (simp add: response_objects_def)
    moreover have "bind_register_response a response IdProvider W
                   = (case bind_values vs IdProvider W of
                        (Inl e, W') \<Rightarrow> (Inl e, W')
                      | (Inr rs, W') \<Rightarrow> (Inr (VTuple rs), W'))"
      using VTuple by (simp add: bind_register_response_def shape_matches_def)
    ultimately show ?thesis by blast
  next
    case (VObj ob)
    then have "objects_of [VObj ob] = response_objects response"
      by (simp add: response_objects_def)
    moreover have "bind_register_response a response IdProvider W
                   = (case bind_values [VObj ob] IdProvider W of
                        (Inl e, W') \<Rightarrow> (Inl e, W')
                      | (Inr rs, W') \<Rightarrow>
                          (Inr ((\<lambda>rs. case rs of [r] \<Rightarrow> r | more_rs \<Rightarrow> VTuple more_rs) rs), W'))"
      using VObj by (simp add: bind_register_response_def shape_matches_def)
    ultimately show ?thesis by blast
  qed (use ne in \<open>simp_all add: response_objects_def\<close>)
  then obtain vs f where o: "objects_of vs = response_objects response"
    and b: "bind_register_response a response IdProvider W
              = (case bind_values vs IdProvider W of
                   (Inl e, W') \<Rightarrow> (Inl e, W')
                 | (Inr rs, W') \<Rightarrow> (Inr (f rs), W'))"
    by blast
  from bind_values_provider[of vs W] obtain rs where
    r: "fst (bind_values vs IdProvider W) = Inr rs" by blast
  have "bind_register_response a response IdProvider W
          = (Inr (f rs), snd (bind_values vs IdProvider W))"
    unfolding b using r by (cases "bind_values vs IdProvider W") simp
  then show ?thesis using bind_values_provider[of vs W] o by simp
qed

lemma bind_response_renegotiates:
  assumes "response \<noteq> VNone"
    and "register_response E (name act) response (IdList (return_ids act)) W1
           = (Inl (ResponseSignatureError ids), W2)"
    and "register_response E (name act) response IdProvider
           (W2\<lparr>ext := start_recording_ids E (set_next_ids E (return_ids act) (ext W2))\<rparr>)
           = (Inr bound, W3)"
    and "get_recorded_ids E (ext W3) = (new_ids, x)"
  shows "bind_response E W1 act response
           = (Inl (ResponseSignatureError (Some new_ids)), W3\<lparr>ext := x\<rparr>)"
  using assms by (simp add: bind_response_def Let_def)

lemma renegotiation_bound:
  assumes E: "register_response E = bind_register_response"
      "set_next_ids E = provider_set_next_ids"
      "start_recording_ids E = provider_start_recording_ids"
      "get_recorded_ids E = provider_get_recorded_ids"
    and c: "compute_response E W act = (Inr response, W1)"
    and ne: "response_objects response \<noteq> []"
    and len: "length (response_objects response) \<noteq> length (return_ids act)"
  shows "fst (execute_computation_action E W act)
           = Inl (ResponseSignatureError
                    (Some (handed_out (given_ids (ext W1) @ return_ids act) (next_fresh (ext W1))
                             (length (response_objects response)))))"
    and "self (snd (execute_computation_action E W act))
           = foldl register_obj (self W1)
               (map (\<lambda>(ob, i). ob\<lparr>obj_id := i\<rparr>)
                  (zip (response_objects response)
                     (handed_out (given_ids (ext W1) @ return_ids act) (next_fresh (ext W1))
                        (length (response_objects response)))))"
proof -
  let ?ids = "handed_out (given_ids (ext W1) @ return_ids act) (next_fresh (ext W1))
                (length (response_objects response))"
  let ?W2 = "W1\<lparr>ext := provider_start_recording_ids
                        (provider_set_next_ids (return_ids act) (ext W1))\<rparr>"
  let ?R = "bind_register_response (name act) response IdProvider ?W2"
  have nn: "response \<noteq> VNone" using ne by (auto simp add: response_objects_def)
  have first: "bind_register_response (name act) response (IdList (return_ids act)) W1
                 = (Inl (ResponseSignatureError None), W1)"
    using ne len by (simp add: bind_register_response_def shape_matches_def)
  let ?p2 = "provider_start_recording_ids (provider_set_next_ids (return_ids act) (ext W1))"
  have x: "given_ids ?p2 = given_ids (ext W1) @ return_ids act"
      "next_fresh ?p2 = next_fresh (ext W1)"
      "record_ids ?p2" "recorded_ids ?p2 = []"
    by (simp_all add: provider_start_recording_ids_def provider_set_next_ids_def)
  have e2: "ext ?W2 = ?p2" and s2: "self ?W2 = self W1" by simp_all
  from bind_register_response_provider[OF ne, of "name act" ?W2]
  have "\<exists>r. fst ?R = Inr r
          \<and> self (snd ?R) = foldl register_obj (self W1)
              (map (\<lambda>(ob, i). ob\<lparr>obj_id := i\<rparr>) (zip (response_objects response) ?ids))
          \<and> recorded_ids (ext (snd ?R)) = ?ids"
    unfolding e2 s2 x(1,2,4) using x(3) by simp
  then obtain r where
    r: "fst ?R = Inr r"
    and s: "self (snd ?R) = foldl register_obj (self W1)
              (map (\<lambda>(ob, i). ob\<lparr>obj_id := i\<rparr>) (zip (response_objects response) ?ids))"
    and rec: "recorded_ids (ext (snd ?R)) = ?ids"
    by blast
  have R: "?R = (Inr r, snd ?R)" using r by (simp add: prod_eq_iff)
  have first': "register_response E (name act) response (IdList (return_ids act)) W1
                 = (Inl (ResponseSignatureError None), W1)"
    using first by (simp add: E)
  have R': "register_response E (name act) response IdProvider
              (W1\<lparr>ext := start_recording_ids E (set_next_ids E (return_ids act) (ext W1))\<rparr>)
            = (Inr r, snd ?R)"
    unfolding E by (rule R)
  have g: "get_recorded_ids E (ext (snd ?R))
             = (recorded_ids (ext (snd ?R)), snd (provider_get_recorded_ids (ext (snd ?R))))"
    unfolding E by (simp add: provider_get_recorded_ids_def)
  have ex: "execute_computation_action E W act
              = (Inl (ResponseSignatureError (Some (recorded_ids (ext (snd ?R))))),
                 (snd ?R)\<lparr>ext := snd (provider_get_recorded_ids (ext (snd ?R)))\<rparr>)"
    unfolding execute_computation_action_def c
    using bind_response_renegotiates[OF nn first' R' g] by simp
  show "fst (execute_computation_action E W act)
           = Inl (ResponseSignatureError (Some ?ids))"
    unfolding ex rec by simp
  show "self (snd (execute_computation_action E W act))
           = foldl register_obj (self W1)
               (map (\<lambda>(ob, i). ob\<lparr>obj_id := i\<rparr>) (zip (response_objects response) ?ids))"
    unfolding ex using s by simp
qed

subsection \<open>Renegotiation of the return ids\<close>

text \<open>
  Claim C1, as stated, fails. On a client worker, a command that requests the return
  ids 100 and 101 and yields three values raises \<^verbatim>\<open>ResponseSignatureError\<close> with three
  ids, but none of the three results is registered under them; and two of the carried
  ids are the requested ones, not new ones.
\<close>

theorem renegotiation_on_client_worker_registers_nothing:
  "fst (execute_computation_action base_collaborators
          (alice_world\<lparr>self := alice\<lparr>is_client_worker := True\<rparr>\<rparr>)
          \<lparr>name = ''examples.pack'', target = VNone,
           args = [VObj (plain_obj (KInt 0) [] [1]), VObj (plain_obj (KInt 0) [] [2]),
                   VObj (plain_obj (KInt 0) [] [3])],
           kwargs = [], return_ids = [KInt 100, KInt 101], return_value = False\<rparr>)
     = Inl (ResponseSignatureError (Some [KInt 100, KInt 101, KInt 1000]))
   \<and> map (map_of (object_store (self (snd
          (execute_computation_action base_collaborators
             (alice_world\<lparr>self := alice\<lparr>is_client_worker := True\<rparr>\<rparr>)
             \<lparr>name = ''examples.pack'', target = VNone,
              args = [VObj (plain_obj (KInt 0) [] [1]), VObj (plain_obj (KInt 0) [] [2]),
                      VObj (plain_obj (KInt 0) [] [3])],
              kwargs = [], return_ids = [KInt 100, KInt 101], return_value = False\<rparr>)))))
         [KInt 100, KInt 101, KInt 1000]
     = [None, None, None]"
  by code_simp

text \<open>
  Claim C1, amended. With the binding and the id provider modelled from the spec: when
  \<^verbatim>\<open>execute_computation_action\<close> has a response with at least one value to bind, and the
  number of its values is not \<^verbatim>\<open>len(return_ids)\<close>, the handler raises
  \<^verbatim>\<open>ResponseSignatureError\<close> carrying exactly one id per value that resulted: the ids the
  provider hands out after \<^verbatim>\<open>set_next_ids(return_ids)\<close>, that is, its pending ids and the
  requested ids first and newly generated ones after them. The results go through the
  worker's \<^verbatim>\<open>register_obj\<close> under these ids, in order: on a client worker the worker is
  unchanged, and on any other worker, when the carried ids are distinct, each result is
  registered under its id afterwards. For every collaborator, an error of the first
  binding followed by a second binding that returns makes the handler raise the error
  with exactly the ids the provider recorded. When \<^verbatim>\<open>send_command\<close> receives that
  exception from \<^verbatim>\<open>send_msg\<close>, it returns one pointer per carried id, in their order,
  each at the recipient and owned by the sender, whatever return ids it had requested.
\<close>

theorem renegotiation_registers_and_carries_ids:
  "(register_response E = bind_register_response
      \<and> set_next_ids E = provider_set_next_ids
      \<and> start_recording_ids E = provider_start_recording_ids
      \<and> get_recorded_ids E = provider_get_recorded_ids
      \<and> compute_response E W act = (Inr response, W1)
      \<and> response_objects response \<noteq> []
      \<and> length (response_objects response) \<noteq> length (return_ids act)
      \<and> new_ids = handed_out (given_ids (ext W1) @ return_ids act) (next_fresh (ext W1))
                     (length (response_objects response))
      \<longrightarrow> fst (execute_computation_action E W act)
            = Inl (ResponseSignatureError (Some new_ids))
          \<and> length new_ids = length (response_objects response)
          \<and> self (snd (execute_computation_action E W act))
              = foldl register_obj (self W1)
                  (map (\<lambda>(ob, i). ob\<lparr>obj_id := i\<rparr>) (zip (response_objects response) new_ids))
          \<and> (is_client_worker (self W1)
                \<longrightarrow> self (snd (execute_computation_action E W act)) = self W1)
          \<and> (\<not> is_client_worker (self W1) \<and> distinct new_ids
                \<longrightarrow> (\<forall>j < length new_ids.
                       map_of (object_store (self (snd (execute_computation_action E W act))))
                         (new_ids ! j)
                       = Some ((response_objects response ! j)\<lparr>obj_id := new_ids ! j\<rparr>))))
   \<and> (compute_response E W act = (Inr response, W1) \<and> response \<noteq> VNone
      \<and> register_response E (name act) response (IdList (return_ids act)) W1
          = (Inl (ResponseSignatureError ids), W2)
      \<and> register_response E (name act) response IdProvider
            (W2\<lparr>ext := start_recording_ids E (set_next_ids E (return_ids act) (ext W2))\<rparr>)
          = (Inr bound, W3)
      \<and> get_recorded_ids E (ext W3) = (new_ids, x)
      \<longrightarrow> execute_computation_action E W act
            = (Inl (ResponseSignatureError (Some new_ids)), W3\<lparr>ext := x\<rparr>))
   \<and> ((case rids of
          None \<Rightarrow> (case id_pop E (ext V) of (i, y) \<Rightarrow> ([i], y))
        | Some given \<Rightarrow> (given, ext V)) = (return_ids0, y0)
      \<and> send_msg E (V\<lparr>ext := y0\<rparr>)
           (TensorCommandMessage (Computation
              \<lparr>name = cmd_name, target = tgt, args = as, kwargs = kw,
               return_ids = return_ids0, return_value = rv\<rparr>)) recipient
          = (Inl (ResponseSignatureError (Some new_ids)), V1)
      \<longrightarrow> (\<exists>ps y. send_command E V recipient cmd_name tgt as kw rids rv
                    = (Inr (case ps of [p] \<Rightarrow> p | more_ps \<Rightarrow> VList more_ps), V1\<lparr>ext := y\<rparr>)
               \<and> map pointer_target ps
                    = map (\<lambda>i. Some (recipient, i, self_ref (self V1))) new_ids))"
proof (intro conjI impI)
  assume a: "register_response E = bind_register_response
      \<and> set_next_ids E = provider_set_next_ids
      \<and> start_recording_ids E = provider_start_recording_ids
      \<and> get_recorded_ids E = provider_get_recorded_ids
      \<and> compute_response E W act = (Inr response, W1)
      \<and> response_objects response \<noteq> []
      \<and> length (response_objects response) \<noteq> length (return_ids act)
      \<and> new_ids = handed_out (given_ids (ext W1) @ return_ids act) (next_fresh (ext W1))
                     (length (response_objects response))"
  then have E: "register_response E = bind_register_response"
      "set_next_ids E = provider_set_next_ids"
      "start_recording_ids E = provider_start_recording_ids"
      "get_recorded_ids E = provider_get_recorded_ids"
    and c: "compute_response E W act = (Inr response, W1)"
    and ne: "response_objects response \<noteq> []"
    and len: "length (response_objects response) \<noteq> length (return_ids act)"
    and n: "new_ids = handed_out (given_ids (ext W1) @ return_ids act) (next_fresh (ext W1))
                        (length (response_objects response))"
    by simp_all
  show raised: "fst (execute_computation_action E W act)
                  = Inl (ResponseSignatureError (Some new_ids))"
    unfolding n by (rule renegotiation_bound(1)[OF E c ne len])
  show l: "length new_ids = length (response_objects response)"
    unfolding n by (rule length_handed_out)
  show reg: "self (snd (execute_computation_action E W act))
               = foldl register_obj (self W1)
                   (map (\<lambda>(ob, i). ob\<lparr>obj_id := i\<rparr>) (zip (response_objects response) new_ids))"
    unfolding n by (rule renegotiation_bound(2)[OF E c ne len])
  {
    assume "is_client_worker (self W1)"
    then show "self (snd (execute_computation_action E W act)) = self W1"
      unfolding reg by (rule foldl_register_obj_client)
  }
  {
    assume b: "\<not> is_client_worker (self W1) \<and> distinct new_ids"
    show "\<forall>j < length new_ids.
            map_of (object_store (self (snd (execute_computation_action E W act)))) (new_ids ! j)
            = Some ((response_objects response ! j)\<lparr>obj_id := new_ids ! j\<rparr>)"
    proof (intro allI impI)
      fix j
      assume j: "j < length new_ids"
      from b have nc: "\<not> is_client_worker (self W1)" and d: "distinct new_ids" by simp_all
      show "map_of (object_store (self (snd (execute_computation_action E W act)))) (new_ids ! j)
            = Some ((response_objects response ! j)\<lparr>obj_id := new_ids ! j\<rparr>)"
        unfolding reg by (rule registered_under_ids[OF nc d l j])
    qed
  }
next
  assume a: "compute_response E W act = (Inr response, W1) \<and> response \<noteq> VNone
      \<and> register_response E (name act) response (IdList (return_ids act)) W1
          = (Inl (ResponseSignatureError ids), W2)
      \<and> register_response E (name act) response IdProvider
            (W2\<lparr>ext := start_recording_ids E (set_next_ids E (return_ids act) (ext W2))\<rparr>)
          = (Inr bound, W3)
      \<and> get_recorded_ids E (ext W3) = (new_ids, x)"
  then have "bind_response E W1 act response
               = (Inl (ResponseSignatureError (Some new_ids)), W3\<lparr>ext := x\<rparr>)"
    using bind_response_renegotiates[of response E act W1 ids W2 bound W3 new_ids x] by blast
  with a show "execute_computation_action E W act
            = (Inl (ResponseSignatureError (Some new_ids)), W3\<lparr>ext := x\<rparr>)"
    by (simp add: execute_computation_action_def)
next
  assume a: "(case rids of
          None \<Rightarrow> (case id_pop E (ext V) of (i, y) \<Rightarrow> ([i], y))
        | Some given \<Rightarrow> (given, ext V)) = (return_ids0, y0)
      \<and> send_msg E (V\<lparr>ext := y0\<rparr>)
           (TensorCommandMessage (Computation
              \<lparr>name = cmd_name, target = tgt, args = as, kwargs = kw,
               return_ids = return_ids0, return_value = rv\<rparr>)) recipient
          = (Inl (ResponseSignatureError (Some new_ids)), V1)"
  obtain ps y where mp: "make_pointers E recipient (self_ref (self V1)) new_ids (ext V1) = (ps, y)"
    by (cases "make_pointers E recipient (self_ref (self V1)) new_ids (ext V1)")
  have "send_command E V recipient cmd_name tgt as kw rids rv
          = (Inr (case ps of [p] \<Rightarrow> p | more_ps \<Rightarrow> VList more_ps), V1\<lparr>ext := y\<rparr>)"
    using a mp by (simp add: send_command_def build_responses_def Let_def)
  moreover have "map pointer_target ps = map (\<lambda>i. Some (recipient, i, self_ref (self V1))) new_ids"
    using make_pointers_targets[of E recipient "self_ref (self V1)" new_ids "ext V1"] mp by simp
  ultimately show "\<exists>ps y. send_command E V recipient cmd_name tgt as kw rids rv
                    = (Inr (case ps of [p] \<Rightarrow> p | more_ps \<Rightarrow> VList more_ps), V1\<lparr>ext := y\<rparr>)
               \<and> map pointer_target ps
                    = map (\<lambda>i. Some (recipient, i, self_ref (self V1))) new_ids"
    by blast
qed

text \<open>
  The scenario of the spec on a worker that is no client worker: a command that
  requests two return ids and yields three values. The handler raises the error with
  three ids, the third result is registered under the third id, and the sender builds
  three pointers from the carried ids.
\<close>

theorem renegotiation_registers_and_carries_ids_witness:
  "fst (execute_computation_action base_collaborators alice_world
          \<lparr>name = ''examples.pack'', target = VNone,
           args = [VObj (plain_obj (KInt 0) [] [1]), VObj (plain_obj (KInt 0) [] [2]),
                   VObj (plain_obj (KInt 0) [] [3])],
           kwargs = [], return_ids = [KInt 100, KInt 101], return_value = False\<rparr>)
     = Inl (ResponseSignatureError (Some [KInt 100, KInt 101, KInt 1000]))
   \<and> map_of (object_store (self (snd
          (execute_computation_action base_collaborators alice_world
             \<lparr>name = ''examples.pack'', target = VNone,
              args = [VObj (plain_obj (KInt 0) [] [1]), VObj (plain_obj (KInt 0) [] [2]),
                      VObj (plain_obj (KInt 0) [] [3])],
              kwargs = [], return_ids = [KInt 100, KInt 101], return_value = False\<rparr>))))
        (KInt 1000)
     = Some (plain_obj (KInt 1000) [] [3])
   \<and> map pointer_target
         (case fst (send_command loopback_collaborators alice_world (Worker (self_ref alice))
                      ''examples.pack'' VNone
                      [VObj (plain_obj (KInt 0) [] [1]), VObj (plain_obj (KInt 0) [] [2]),
                       VObj (plain_obj (KInt 0) [] [3])]
                      [] (Some [KInt 100, KInt 101]) False) of
            Inr (VList ps) \<Rightarrow> ps
          | other \<Rightarrow> [])
       = [Some (Worker (self_ref alice), KInt 100, self_ref alice),
          Some (Worker (self_ref alice), KInt 101, self_ref alice),
          Some (Worker (self_ref alice), KInt 1000, self_ref alice)]"
proof -
  let ?E = "base_collaborators"
  let ?L = "loopback_collaborators"
  let ?as = "[VObj (plain_obj (KInt 0) [] [1]), VObj (plain_obj (KInt 0) [] [2]),
              VObj (plain_obj (KInt 0) [] [3])]"
  let ?act = "\<lparr>name = ''examples.pack'', target = VNone, args = ?as, kwargs = [],
               return_ids = [KInt 100, KInt 101], return_value = False\<rparr>"
  let ?new = "[KInt 100, KInt 101, KInt 1000]"
  let ?W2 = "snd (register_response ?E (name ?act) (VTuple ?as) (IdList (return_ids ?act))
                    alice_world)"
  let ?W2' = "?W2\<lparr>ext := start_recording_ids ?E (set_next_ids ?E (return_ids ?act) (ext ?W2))\<rparr>"
  let ?W3 = "snd (register_response ?E (name ?act) (VTuple ?as) IdProvider ?W2')"
  let ?bound = "VTuple [VObj (plain_obj (KInt 100) [] [1]), VObj (plain_obj (KInt 101) [] [2]),
                        VObj (plain_obj (KInt 1000) [] [3])]"
  let ?x = "snd (get_recorded_ids ?E (ext ?W3))"
  have "fst (compute_response ?E alice_world ?act) = Inr (VTuple ?as)"
    and "snd (compute_response ?E alice_world ?act) = alice_world"
    by code_simp+
  then have h1: "compute_response ?E alice_world ?act = (Inr (VTuple ?as), alice_world)"
    by (simp add: prod_eq_iff)
  have h2: "VTuple ?as \<noteq> VNone" by simp
  have "fst (register_response ?E (name ?act) (VTuple ?as) (IdList (return_ids ?act))
               alice_world) = Inl (ResponseSignatureError None)"
    by code_simp
  then have h3: "register_response ?E (name ?act) (VTuple ?as) (IdList (return_ids ?act))
                   alice_world = (Inl (ResponseSignatureError None), ?W2)"
    by (simp add: prod_eq_iff)
  have "fst (register_response ?E (name ?act) (VTuple ?as) IdProvider ?W2') = Inr ?bound"
    by code_simp
  then have h4: "register_response ?E (name ?act) (VTuple ?as) IdProvider ?W2' = (Inr ?bound, ?W3)"
    by (simp add: prod_eq_iff)
  have "fst (get_recorded_ids ?E (ext ?W3)) = ?new"
    by code_simp
  then have h5: "get_recorded_ids ?E (ext ?W3) = (?new, ?x)"
    by (simp add: prod_eq_iff)
  have remote: "execute_computation_action ?E alice_world ?act
                  = (Inl (ResponseSignatureError (Some ?new)), ?W3\<lparr>ext := ?x\<rparr>)"
    using renegotiation_registers_and_carries_ids
            [where E = "?E" and W = alice_world and act = "?act" and response = "VTuple ?as"
               and ?W1.0 = alice_world and ids = None and ?W2.0 = "?W2" and bound = "?bound"
               and ?W3.0 = "?W3" and new_ids = "?new" and x = "?x",
               THEN conjunct2, THEN conjunct1]
          h1 h2 h3 h4 h5
    by blast
  have g1: "(case Some [KInt 100, KInt 101] of
               None \<Rightarrow> (case id_pop ?L (ext alice_world) of (i, y) \<Rightarrow> ([i], y))
             | Some given \<Rightarrow> (given, ext alice_world))
            = ([KInt 100, KInt 101], ext alice_world)"
    by simp
  have g2: "send_msg ?L (alice_world\<lparr>ext := ext alice_world\<rparr>)
              (TensorCommandMessage (Computation
                 \<lparr>name = ''examples.pack'', target = VNone, args = ?as, kwargs = [],
                  return_ids = [KInt 100, KInt 101], return_value = False\<rparr>))
              (Worker (self_ref alice))
            = (Inl (ResponseSignatureError (Some ?new)), ?W3\<lparr>ext := ?x\<rparr>)"
    using remote
    by (simp add: send_msg_def loopback_collaborators_def base_collaborators_def)
  have s: "self_ref (self (?W3\<lparr>ext := ?x\<rparr>)) = self_ref alice"
    by code_simp
  from renegotiation_registers_and_carries_ids
         [where E = "?L" and V = alice_world and rids = "Some [KInt 100, KInt 101]"
            and ?return_ids0.0 = "[KInt 100, KInt 101]" and ?y0.0 = "ext alice_world"
            and cmd_name = "''examples.pack''" and tgt = VNone and as = "?as" and kw = "[]"
            and rv = False and recipient = "Worker (self_ref alice)" and new_ids = "?new"
            and ?V1.0 = "?W3\<lparr>ext := ?x\<rparr>", THEN conjunct2, THEN conjunct2] g1 g2
  obtain ps y where
    sc: "send_command ?L alice_world (Worker (self_ref alice)) ''examples.pack'' VNone ?as []
           (Some [KInt 100, KInt 101]) False
         = (Inr (case ps of [p] \<Rightarrow> p | more_ps \<Rightarrow> VList more_ps), ?W3\<lparr>ext := ?x, ext := y\<rparr>)"
    and pt: "map pointer_target ps
             = map (\<lambda>i. Some (Worker (self_ref alice), i, self_ref (self (?W3\<lparr>ext := ?x\<rparr>)))) ?new"
    by blast
  from pt have "length ps = 3" using length_map[of pointer_target ps] by simp
  then obtain p1 p2 p3 where "ps = [p1, p2, p3]"
    by (cases ps; cases "tl ps"; cases "tl (tl ps)"; cases "tl (tl (tl ps))") simp_all
  with sc pt s have sender:
    "map pointer_target
       (case fst (send_command ?L alice_world (Worker (self_ref alice)) ''examples.pack'' VNone
                    ?as [] (Some [KInt 100, KInt 101]) False) of
          Inr (VList ps) \<Rightarrow> ps
        | other \<Rightarrow> [])
     = [Some (Worker (self_ref alice), KInt 100, self_ref alice),
        Some (Worker (self_ref alice), KInt 101, self_ref alice),
        Some (Worker (self_ref alice), KInt 1000, self_ref alice)]"
    by simp
  have e: "register_response ?E = bind_register_response
           \<and> set_next_ids ?E = provider_set_next_ids
           \<and> start_recording_ids ?E = provider_start_recording_ids
           \<and> get_recorded_ids ?E = provider_get_recorded_ids"
    by (simp add: base_collaborators_def)
  have o: "response_objects (VTuple ?as)
             = [plain_obj (KInt 0) [] [1], plain_obj (KInt 0) [] [2], plain_obj (KInt 0) [] [3]]"
    by (simp add: response_objects_def)
  have k1: "response_objects (VTuple ?as) \<noteq> []"
    and k2: "length (response_objects (VTuple ?as)) \<noteq> length (return_ids ?act)"
    unfolding o by simp_all
  have k3: "?new = handed_out (given_ids (ext alice_world) @ return_ids ?act)
                     (next_fresh (ext alice_world)) (length (response_objects (VTuple ?as)))"
    by code_simp
  have k4: "\<not> is_client_worker (self alice_world) \<and> distinct ?new"
    by (simp add: alice_world_def alice_def)
  from renegotiation_registers_and_carries_ids
         [where E = "?E" and W = alice_world and act = "?act" and response = "VTuple ?as"
            and ?W1.0 = alice_world and new_ids = "?new", THEN conjunct1] e h1 k1 k2 k3 k4
  have "\<forall>j < length ?new.
          map_of (object_store (self (snd (execute_computation_action ?E alice_world ?act))))
            (?new ! j)
          = Some ((response_objects (VTuple ?as) ! j)\<lparr>obj_id := ?new ! j\<rparr>)"
    by blast
  moreover have "(2::nat) < length ?new" by simp
  ultimately
  have "map_of (object_store (self (snd (execute_computation_action ?E alice_world ?act))))
               (?new ! 2)
             = Some ((response_objects (VTuple ?as) ! 2)\<lparr>obj_id := ?new ! 2\<rparr>)"
    by blast
  then have stored:
    "map_of (object_store (self (snd (execute_computation_action ?E alice_world ?act))))
       (KInt 1000) = Some (plain_obj (KInt 1000) [] [3])"
    unfolding o by (simp add: plain_obj_def)
  from remote stored sender show ?thesis by simp
qed


subsection \<open>Search\<close>

text \<open>
  Claim C2. In a store that holds exactly three objects, tagged \<open>{t1}\<close>, \<open>{t2}\<close> and
  \<open>{t1, t2}\<close> with \<open>t1\<close> and \<open>t2\<close> different, and in which neither term is the id of an
  object, \<^verbatim>\<open>search([t1, t2])\<close> returns exactly the one object tagged with both, and leaves
  the worker as it was.
\<close>

theorem search_two_tags_returns_common_object:
  assumes objs: "snd ` set (object_store w) = {o1, o2, o3}"
    and tags: "set (tags o1) = {t1}" "set (tags o2) = {t2}" "set (tags o3) = {t1, t2}"
    and neq: "t1 \<noteq> t2"
    and noid: "map_of (object_store w) (KStr t1) = None" "map_of (object_store w) (KStr t2) = None"
  shows "search w (QList [KStr t1, KStr t2]) = (Inr [Some o3], w)"
proof -
  let ?s = "object_store w"
  let ?r1 = "remdups (find_by_tag ?s (KStr t1))"
  let ?r2 = "filter (\<lambda>x. x \<in> set (find_by_tag ?s (KStr t2))) ?r1"
  have s1: "set ?r1 = {o1, o3}"
    using objs tags neq by (auto simp add: set_find_by_tag)
  then have ne: "?r1 \<noteq> []" by auto
  have "set ?r2 = {o3}"
    using objs tags neq by (auto simp add: set_find_by_tag)
  moreover have "distinct ?r2" by simp
  ultimately have r2: "?r2 = [o3]" by (rule distinct_set_single[rotated])
  have m1: "id_match ?s (KStr t1) = None" and m2: "id_match ?s (KStr t2) = None"
    using noid by (simp_all add: id_match_absent)
  have "search_loop ?s [KStr t1, KStr t2] None = Some ?r2"
    using ne by (simp add: m1 m2 Let_def)
  then have "search_loop ?s [KStr t1, KStr t2] None = Some [o3]"
    by (simp only: r2)
  then show ?thesis
    by (simp add: search_def finish_search_def)
qed

theorem search_two_tags_returns_common_object_witness:
  "search alice (QList [KStr ''model'', KStr ''v1''])
     = (Inr [Some (plain_obj (KInt 3) [''model'', ''v1''] [])], alice)"
proof -
  have h1: "snd ` set (object_store alice)
            = {plain_obj (KInt 1) [''model''] [1, 2, 3, 4], plain_obj (KInt 2) [''v1''] [],
               plain_obj (KInt 3) [''model'', ''v1''] []}"
    by (simp add: alice_def)
  have h2: "set (tags (plain_obj (KInt 1) [''model''] [1, 2, 3, 4])) = {''model''}"
    and h3: "set (tags (plain_obj (KInt 2) [''v1''] [])) = {''v1''}"
    and h4: "set (tags (plain_obj (KInt 3) [''model'', ''v1''] [])) = {''model'', ''v1''}"
    by (simp_all add: plain_obj_def)
  have h5: "''model'' \<noteq> ''v1''" by simp
  have h6: "map_of (object_store alice) (KStr ''model'') = None"
    and h7: "map_of (object_store alice) (KStr ''v1'') = None"
    by (simp_all add: alice_def)
  show ?thesis
    by (rule search_two_tags_returns_common_object[OF h1 h2 h3 h4 h5 h6 h7])
qed

text \<open>
  Claim C3, as stated, fails: \<^verbatim>\<open>alice\<close> holds object 1 tagged \<open>model\<close> only, and the
  query \<open>[1, "v1"]\<close> returns object 1, which is not among the tag matches of the
  remaining term \<open>v1\<close>.
\<close>

theorem search_id_match_not_intersected:
  "fst (search alice (QList [KInt 1, KStr ''v1'']))
     = Inr [Some (plain_obj (KInt 1) [''model''] [1, 2, 3, 4])]
   \<and> plain_obj (KInt 1) [''model''] [1, 2, 3, 4]
       \<notin> set (find_by_tag (object_store alice) (KStr ''v1''))"
  by code_simp

text \<open>
  Claim C3, amended. For a query of one or more terms: if some term is an id match,
  that is, \<^verbatim>\<open>find_by_id\<close> gives an object that is true as a boolean, the search stops at
  the first such term and returns exactly that object, whatever the tag matches of the
  terms before it and without looking at the terms after it. If no term is an id match
  and the tag matches of the terms before the last have an object in common, the result
  is the intersection of the tag matches of all terms.
\<close>

theorem search_id_match_ends_search:
  "(ts = pre @ q # post \<and> (\<forall>p \<in> set pre. id_match (object_store w) p = None)
      \<and> id_match (object_store w) q = Some ob
      \<longrightarrow> search w (QList ts) = (Inr [Some ob], w))
   \<and> (ts \<noteq> [] \<and> (\<forall>t \<in> set ts. id_match (object_store w) t = None)
      \<and> (\<Inter>t \<in> set (butlast ts). set (find_by_tag (object_store w) t)) \<noteq> {}
      \<longrightarrow> (\<exists>r. search w (QList ts) = (Inr (map Some r), w)
              \<and> set r = (\<Inter>t \<in> set ts. set (find_by_tag (object_store w) t))))"
proof (intro conjI impI)
  assume a: "ts = pre @ q # post \<and> (\<forall>p \<in> set pre. id_match (object_store w) p = None)
      \<and> id_match (object_store w) q = Some ob"
  then have "search_loop (object_store w) ts None = Some [ob]"
    using search_loop_id_match[of pre "object_store w" q ob post None] by simp
  moreover from a have "ts \<noteq> []" by simp
  ultimately show "search w (QList ts) = (Inr [Some ob], w)"
    by (cases ts) (simp_all add: search_def finish_search_def)
next
  let ?s = "object_store w"
  assume a: "ts \<noteq> [] \<and> (\<forall>t \<in> set ts. id_match ?s t = None)
      \<and> (\<Inter>t \<in> set (butlast ts). set (find_by_tag ?s t)) \<noteq> {}"
  from a obtain t rest where ts: "ts = t # rest" by (cases ts) simp_all
  let ?r0 = "remdups (find_by_tag ?s t)"
  from a ts have mt: "id_match ?s t = None" by simp
  from a ts have p1: "\<forall>t \<in> set rest. id_match ?s t = None" by simp
  have step: "search_loop ?s ts None = search_loop ?s rest (Some ?r0)"
    unfolding ts using mt by (rule search_loop_first)
  have "\<exists>r. search_loop ?s rest (Some ?r0) = Some r \<and>
             set r = set ?r0 \<inter> (\<Inter>t \<in> set rest. set (find_by_tag ?s t))"
  proof (cases "rest = []")
    case True
    then show ?thesis by simp
  next
    case False
    then have "butlast ts = t # butlast rest" using ts by simp
    moreover from a have "(\<Inter>t \<in> set (butlast ts). set (find_by_tag ?s t)) \<noteq> {}" by simp
    ultimately
    have p2: "set ?r0 \<inter> (\<Inter>t \<in> set (butlast rest). set (find_by_tag ?s t)) \<noteq> {}"
      by simp
    show ?thesis using p1 p2 by (rule search_loop_tags)
  qed
  then obtain r where r: "search_loop ?s rest (Some ?r0) = Some r"
    and sr: "set r = set ?r0 \<inter> (\<Inter>t \<in> set rest. set (find_by_tag ?s t))" by blast
  have "search_loop ?s ts None = Some r" using step r by simp
  then have "search w (QList ts) = (Inr (map Some r), w)"
    using ts by (simp add: search_def finish_search_def)
  moreover have "set r = (\<Inter>t \<in> set ts. set (find_by_tag ?s t))"
    unfolding sr ts by simp
  ultimately show "\<exists>r. search w (QList ts) = (Inr (map Some r), w)
              \<and> set r = (\<Inter>t \<in> set ts. set (find_by_tag ?s t))" by blast
qed

theorem search_id_match_ends_search_witness:
  "search alice (QList [KStr ''v1'', KInt 1, KStr ''model''])
     = (Inr [Some (plain_obj (KInt 1) [''model''] [1, 2, 3, 4])], alice)
   \<and> set (case fst (search alice (QList [KStr ''model'', KStr ''v1''])) of
             Inr hits \<Rightarrow> hits
           | Inl e \<Rightarrow> [])
       = {Some (plain_obj (KInt 3) [''model'', ''v1''] [])}"
proof -
  let ?s = "object_store alice"
  have a1: "[KStr ''v1'', KInt 1, KStr ''model''] = [KStr ''v1''] @ KInt 1 # [KStr ''model'']"
    by simp
  have a2: "\<forall>p \<in> set [KStr ''v1'']. id_match ?s p = None"
    by (simp add: id_match_def find_by_id_def alice_def)
  have a3: "id_match ?s (KInt 1) = Some (plain_obj (KInt 1) [''model''] [1, 2, 3, 4])"
    by (simp add: id_match_def find_by_id_def alice_def plain_obj_def)
  have b1: "[KStr ''model'', KStr ''v1''] \<noteq> []" by simp
  have b2: "\<forall>t \<in> set [KStr ''model'', KStr ''v1'']. id_match ?s t = None"
    by (simp add: id_match_def find_by_id_def alice_def)
  have b3: "(\<Inter>t \<in> set (butlast [KStr ''model'', KStr ''v1'']). set (find_by_tag ?s t)) \<noteq> {}"
    by (simp add: find_by_tag_def alice_def plain_obj_def)
  have b4: "(\<Inter>t \<in> set [KStr ''model'', KStr ''v1'']. set (find_by_tag ?s t))
            = {plain_obj (KInt 3) [''model'', ''v1''] []}"
    by (auto simp add: find_by_tag_def alice_def plain_obj_def)
  have first: "search alice (QList [KStr ''v1'', KInt 1, KStr ''model''])
                 = (Inr [Some (plain_obj (KInt 1) [''model''] [1, 2, 3, 4])], alice)"
    using search_id_match_ends_search
            [where w = alice and ts = "[KStr ''v1'', KInt 1, KStr ''model'']"
               and pre = "[KStr ''v1'']" and q = "KInt 1" and post = "[KStr ''model'']"
               and ob = "plain_obj (KInt 1) [''model''] [1, 2, 3, 4]", THEN conjunct1]
          a1 a2 a3
    by blast
  from search_id_match_ends_search
         [where w = alice and ts = "[KStr ''model'', KStr ''v1'']", THEN conjunct2] b1 b2 b3
  obtain r where r: "search alice (QList [KStr ''model'', KStr ''v1'']) = (Inr (map Some r), alice)"
    and sr: "set r = (\<Inter>t \<in> set [KStr ''model'', KStr ''v1'']. set (find_by_tag ?s t))"
    by blast
  from sr b4 have "set r = {plain_obj (KInt 3) [''model'', ''v1''] []}" by simp
  then have "set (map Some r) = {Some (plain_obj (KInt 3) [''model'', ''v1''] [])}" by simp
  with r first show ?thesis by simp
qed

subsection \<open>The registry\<close>

text \<open>
  Claim C4. For an id that is neither the worker's own id nor a key of its registry,
  \<^verbatim>\<open>get_worker\<close> with \<^verbatim>\<open>fail_hard=True\<close> raises \<^verbatim>\<open>WorkerNotFoundException\<close>, and with
  \<^verbatim>\<open>fail_hard=False\<close> it returns the id itself and raises nothing; for the worker's own
  id it returns the worker itself. The worker is unchanged in all three cases.
\<close>

theorem get_worker_unknown_and_own_id:
  assumes "wid \<noteq> worker_id w" and "map_of (known_workers w) wid = None"
  shows "get_worker w (AnId wid) True = (Inl WorkerNotFoundException, w)
       \<and> get_worker w (AnId wid) False = (Inr (Unresolved wid), w)
       \<and> (\<forall>fail_hard. get_worker w (AnId (worker_id w)) fail_hard
                        = (Inr (Worker (self_ref w)), w))"
  using assms by (simp add: get_worker_def get_worker_based_on_id_def)

theorem get_worker_unknown_and_own_id_witness:
  "get_worker alice (AnId (KStr ''carol'')) True = (Inl WorkerNotFoundException, alice)
   \<and> get_worker alice (AnId (KStr ''carol'')) False = (Inr (Unresolved (KStr ''carol'')), alice)
   \<and> get_worker alice (AnId (KStr ''alice'')) True = (Inr (Worker (WRef (KStr ''alice'') 0)), alice)"
proof -
  have h1: "KStr ''carol'' \<noteq> worker_id alice" by (simp add: alice_def)
  have h2: "map_of (known_workers alice) (KStr ''carol'') = None" by (simp add: alice_def)
  have h3: "worker_id alice = KStr ''alice''" and h4: "self_ref alice = WRef (KStr ''alice'') 0"
    by (simp_all add: alice_def self_ref_def)
  show ?thesis
    using get_worker_unknown_and_own_id[OF h1 h2] h3 h4 by simp
qed

subsection \<open>Reading objects\<close>

text \<open>
  Claim C5. \<^verbatim>\<open>is_object_none\<close> raises \<^verbatim>\<open>ObjectNotFoundError\<close> when the store has no entry
  for the id. For an entry whose object is flagged private, \<^verbatim>\<open>get_obj\<close> returns \<^verbatim>\<open>None\<close>
  and \<^verbatim>\<open>is_object_none\<close> returns \<^verbatim>\<open>True\<close>. So the probe tells an absent entry from one that
  is present and private.
\<close>

theorem is_object_none_absent_or_private:
  "(map_of (object_store w) k = None
      \<longrightarrow> is_object_none w k = (Inl (ObjectNotFoundError k), w))
   \<and> (map_of (object_store w) k = Some ob \<and> is_private ob = Some True
      \<longrightarrow> fst (get_obj w k) = Inr None \<and> fst (is_object_none w k) = Inr True)"
  by (auto simp add: is_object_none_def get_obj_def ObjectStore_get_obj_def Let_def
        split: option.splits child.splits)

theorem is_object_none_absent_or_private_witness:
  "is_object_none vault (KInt 99) = (Inl (ObjectNotFoundError (KInt 99)), vault)
   \<and> fst (get_obj vault (KInt 10)) = Inr None
   \<and> fst (is_object_none vault (KInt 10)) = Inr True"
proof -
  let ?ob = "(plain_obj (KInt 10) [] [])\<lparr>child := Some (Child (Some True)), is_private := Some True\<rparr>"
  have h1: "map_of (object_store vault) (KInt 99) = None" by (simp add: vault_def)
  have h2: "map_of (object_store vault) (KInt 10) = Some ?ob \<and> is_private ?ob = Some True"
    by (simp add: vault_def)
  show ?thesis
    using is_object_none_absent_or_private[of vault "KInt 99", THEN conjunct1]
          is_object_none_absent_or_private[of vault "KInt 10" ?ob, THEN conjunct2] h1 h2
    by blast
qed

text \<open>
  Claim C7. After \<^verbatim>\<open>get_obj\<close> on a stored object whose child has a garbage-collection
  toggle, the toggle of the stored object reports "do not collect", whatever it
  reported before, and so does the toggle of the object that is returned.
\<close>

theorem get_obj_forces_no_collect:
  assumes "map_of (object_store w) k = Some ob" and "child ob = Some (Child (Some b))"
  shows "map_of (object_store (snd (get_obj w k))) k
           = Some (ob\<lparr>child := Some (Child (Some False))\<rparr>)
       \<and> (\<forall>r. fst (get_obj w k) = Inr (Some r) \<longrightarrow> child r = Some (Child (Some False)))"
  using assms by (auto simp add: get_obj_def ObjectStore_get_obj_def Let_def update_conv')

theorem get_obj_forces_no_collect_witness:
  "map_of (object_store (snd (get_obj vault (KInt 11)))) (KInt 11)
     = Some ((plain_obj (KInt 11) [] [])\<lparr>child := Some (Child (Some False))\<rparr>)
   \<and> fst (get_obj vault (KInt 11))
       = Inr (Some ((plain_obj (KInt 11) [] [])\<lparr>child := Some (Child (Some False))\<rparr>))"
proof -
  let ?ob = "(plain_obj (KInt 11) [] [])\<lparr>child := Some (Child (Some True))\<rparr>"
  have h1: "map_of (object_store vault) (KInt 11) = Some ?ob" by (simp add: vault_def)
  have h2: "child ?ob = Some (Child (Some True))" by simp
  have "fst (get_obj vault (KInt 11))
          = Inr (Some ((plain_obj (KInt 11) [] [])\<lparr>child := Some (Child (Some False))\<rparr>))"
    by code_simp
  then show ?thesis
    using get_obj_forces_no_collect[OF h1 h2] by simp
qed

subsection \<open>Requests for objects\<close>

text \<open>
  Claim C9, as stated, fails: a client worker that holds object 11 answers a permitted
  request with the object and still has it registered afterwards.
\<close>

theorem respond_to_obj_req_client_keeps_object:
  "fst (respond_to_obj_req (vault\<lparr>is_client_worker := True\<rparr>) (KInt 11) None [])
     = Inr (Some ((plain_obj (KInt 11) [] [])\<lparr>child := Some (Child (Some False))\<rparr>))
   \<and> map_of (object_store
               (snd (respond_to_obj_req (vault\<lparr>is_client_worker := True\<rparr>) (KInt 11) None [])))
        (KInt 11)
     = Some ((plain_obj (KInt 11) [] [])\<lparr>child := Some (Child (Some False))\<rparr>)"
  by code_simp

text \<open>
  Claim C9, amended. When \<^verbatim>\<open>get_obj\<close> returns for the requested id,
  \<^verbatim>\<open>respond_to_obj_req\<close> raises \<^verbatim>\<open>GetNotPermittedError\<close> if the object has \<^verbatim>\<open>allow\<close> and
  \<^verbatim>\<open>allow(user)\<close> is false; otherwise it returns what \<^verbatim>\<open>get_obj\<close> returned, and if the
  worker is not a client worker and an object was returned, no object is registered
  under that object's id afterwards.
\<close>

theorem respond_to_obj_req_permission_and_deregister:
  assumes g: "get_obj w k = (Inr x, w')"
  shows "(x = Some ob \<and> allow ob = Some p \<and> \<not> permits p u
            \<longrightarrow> respond_to_obj_req w k u reason = (Inl GetNotPermittedError, w'))
       \<and> (\<not> denied x u
            \<longrightarrow> fst (respond_to_obj_req w k u reason) = Inr x
              \<and> (\<not> is_client_worker w \<and> x = Some ob
                   \<longrightarrow> map_of (object_store (snd (respond_to_obj_req w k u reason))) (obj_id ob)
                        = None))"
  using g get_obj_is_client_worker[OF g]
  by (auto simp add: respond_to_obj_req_def denied_def de_register_obj_def
        ObjectStore_de_register_obj_def delete_conv')

theorem respond_to_obj_req_permission_and_deregister_witness:
  "respond_to_obj_req vault (KInt 12) (Some ''guest'') [] = (Inl GetNotPermittedError, vault)
   \<and> fst (respond_to_obj_req vault (KInt 12) (Some ''owner'') [])
       = Inr (Some ((plain_obj (KInt 12) [] [])\<lparr>allow := Some (AllowUsers [Some ''owner''])\<rparr>))
   \<and> map_of (object_store (snd (respond_to_obj_req vault (KInt 12) (Some ''owner'') [])))
        (KInt 12) = None"
proof -
  let ?ob = "(plain_obj (KInt 12) [] [])\<lparr>allow := Some (AllowUsers [Some ''owner''])\<rparr>"
  have "fst (get_obj vault (KInt 12)) = Inr (Some ?ob)" and "snd (get_obj vault (KInt 12)) = vault"
    by code_simp+
  then have g: "get_obj vault (KInt 12) = (Inr (Some ?ob), vault)"
    by (simp add: prod_eq_iff)
  have d1: "Some ?ob = Some ?ob \<and> allow ?ob = Some (AllowUsers [Some ''owner''])
            \<and> \<not> permits (AllowUsers [Some ''owner'']) (Some ''guest'')"
    by (simp add: permits_def)
  have d2: "\<not> denied (Some ?ob) (Some ''owner'')"
    by (simp add: denied_def permits_def)
  have d3: "\<not> is_client_worker vault \<and> Some ?ob = Some ?ob" by (simp add: vault_def)
  have d4: "obj_id ?ob = KInt 12" by (simp add: plain_obj_def)
  show ?thesis
    using respond_to_obj_req_permission_and_deregister
            [OF g, where ob = ?ob and p = "AllowUsers [Some ''owner'']" and u = "Some ''guest''"
               and reason = "[]", THEN conjunct1]
          respond_to_obj_req_permission_and_deregister
            [OF g, where ob = ?ob and u = "Some ''owner''" and reason = "[]", THEN conjunct2]
          d1 d2 d3 d4
    by simp
qed

subsection \<open>Sending to several workers\<close>

text \<open>
  Claim C6. A call of \<^verbatim>\<open>send\<close> with more than one destination raises
  \<^verbatim>\<open>NotImplementedError\<close> and leaves the worker and everything outside it as they were,
  whatever the transport is: nothing has been transmitted. A list with exactly one
  destination is sent as the single destination is.
\<close>

theorem send_many_workers_not_implemented:
  "(1 < length ws
      \<longrightarrow> send E W ob (Workers ws) ptr_id gc requires_grad create_ptr kw
          = (Inl NotImplementedError, W))
   \<and> send E W ob (Workers [x]) ptr_id gc requires_grad create_ptr kw
       = send E W ob (OneWorker x) ptr_id gc requires_grad create_ptr kw"
  by (cases ws; simp add: send_def split: list.splits)

theorem send_many_workers_not_implemented_witness:
  "send loopback_collaborators alice_world (plain_obj (KInt 7) [] [1, 2])
     (Workers [AnId (KStr ''bob''), AnId (KStr ''carol'')]) None None False True []
   = (Inl NotImplementedError, alice_world)"
proof -
  have h: "1 < length [AnId (KStr ''bob''), AnId (KStr ''carol'')]" by simp
  show ?thesis
    using send_many_workers_not_implemented
            [where ws = "[AnId (KStr ''bob''), AnId (KStr ''carol'')]", THEN conjunct1] h
    by blast
qed

subsection \<open>What a computation returns\<close>

text \<open>
  Claim C8. When the response of a computation is not \<^verbatim>\<open>None\<close> and is bound without an
  error, \<^verbatim>\<open>execute_computation_action\<close> returns the bound response if the action's
  \<^verbatim>\<open>return_value\<close> flag is set or the bound response is an int, a float, a bool or a str,
  and returns \<^verbatim>\<open>None\<close> in every other case.
\<close>

theorem execute_computation_action_returns_raw_iff:
  assumes "compute_response E W act = (Inr response, W1)" and "response \<noteq> VNone"
    and "register_response E (name act) response (IdList (return_ids act)) W1 = (Inr bound, W2)"
  shows "(return_value act \<or> is_scalar bound
            \<longrightarrow> execute_computation_action E W act = (Inr bound, W2))
       \<and> (\<not> (return_value act \<or> is_scalar bound)
            \<longrightarrow> execute_computation_action E W act = (Inr VNone, W2))
       \<and> (is_scalar bound \<longleftrightarrow>
            (\<exists>n. bound = VInt n) \<or> (\<exists>f. bound = VFloat f) \<or> (\<exists>b. bound = VBool b)
            \<or> (\<exists>s. bound = VStr s))"
  using assms
  by (cases bound) (simp_all add: execute_computation_action_def bind_response_def is_scalar_def)

theorem execute_computation_action_returns_raw_iff_witness:
  "fst (execute_computation_action base_collaborators alice_world
          \<lparr>name = ''numel'', target = VInt 1, args = [], kwargs = [],
           return_ids = [KInt 200], return_value = False\<rparr>) = Inr (VInt 4)
   \<and> fst (execute_computation_action base_collaborators alice_world
          \<lparr>name = ''clone'', target = VInt 1, args = [], kwargs = [],
           return_ids = [KInt 200], return_value = False\<rparr>) = Inr VNone
   \<and> fst (execute_computation_action base_collaborators alice_world
          \<lparr>name = ''clone'', target = VInt 1, args = [], kwargs = [],
           return_ids = [KInt 200], return_value = True\<rparr>)
       = Inr (VObj (plain_obj (KInt 200) [''model''] [1, 2, 3, 4]))"
proof -
  let ?E = "base_collaborators"
  let ?numel = "\<lparr>name = ''numel'', target = VInt 1, args = [], kwargs = [],
                 return_ids = [KInt 200], return_value = False\<rparr>"
  let ?clone = "\<lambda>rv. \<lparr>name = ''clone'', target = VInt 1, args = [], kwargs = [],
                      return_ids = [KInt 200], return_value = rv\<rparr>"
  let ?ob = "plain_obj (KInt 1) [''model''] [1, 2, 3, 4]"
  let ?ob' = "plain_obj (KInt 200) [''model''] [1, 2, 3, 4]"
  let ?W2 = "snd (register_response ?E ''clone'' (VObj ?ob) (IdList [KInt 200]) alice_world)"
  have "fst (compute_response ?E alice_world ?numel) = Inr (VInt 4)"
    and "snd (compute_response ?E alice_world ?numel) = alice_world"
    by code_simp+
  then have n1: "compute_response ?E alice_world ?numel = (Inr (VInt 4), alice_world)"
    by (simp add: prod_eq_iff)
  have n2: "VInt 4 \<noteq> VNone" by simp
  have "fst (register_response ?E (name ?numel) (VInt 4) (IdList (return_ids ?numel)) alice_world)
          = Inr (VInt 4)"
    and "snd (register_response ?E (name ?numel) (VInt 4) (IdList (return_ids ?numel)) alice_world)
          = alice_world"
    by code_simp+
  then have n3: "register_response ?E (name ?numel) (VInt 4) (IdList (return_ids ?numel))
                   alice_world = (Inr (VInt 4), alice_world)"
    by (simp add: prod_eq_iff)
  have "fst (compute_response ?E alice_world (?clone False)) = Inr (VObj ?ob)"
    and "snd (compute_response ?E alice_world (?clone False)) = alice_world"
    by code_simp+
  then have cF: "compute_response ?E alice_world (?clone False) = (Inr (VObj ?ob), alice_world)"
    by (simp add: prod_eq_iff)
  have "fst (compute_response ?E alice_world (?clone True)) = Inr (VObj ?ob)"
    and "snd (compute_response ?E alice_world (?clone True)) = alice_world"
    by code_simp+
  then have cT: "compute_response ?E alice_world (?clone True) = (Inr (VObj ?ob), alice_world)"
    by (simp add: prod_eq_iff)
  have c2: "VObj ?ob \<noteq> VNone" by simp
  have "fst (register_response ?E ''clone'' (VObj ?ob) (IdList [KInt 200]) alice_world)
          = Inr (VObj ?ob')"
    by code_simp
  then have c3: "\<And>rv. register_response ?E (name (?clone rv)) (VObj ?ob)
                         (IdList (return_ids (?clone rv))) alice_world = (Inr (VObj ?ob'), ?W2)"
    by (simp add: prod_eq_iff)
  have s1: "is_scalar (VInt 4)" and s2: "\<not> is_scalar (VObj ?ob')"
    by (simp_all add: is_scalar_def)
  show ?thesis
    using execute_computation_action_returns_raw_iff[OF n1 n2 n3]
          execute_computation_action_returns_raw_iff[OF cF c2 c3[of False]]
          execute_computation_action_returns_raw_iff[OF cT c2 c3[of True]]
          s1 s2
    by simp
qed

subsection \<open>The router\<close>

text \<open>
  Claim C10. A \<^verbatim>\<open>ForceObjectDeleteMessage\<close> is routed to
  \<^verbatim>\<open>handle_force_delete_object_msg\<close>, and no message type is routed to
  \<^verbatim>\<open>handle_delete_object_msg\<close>, although the dict display of the router has an entry for
  it: the display has the key \<^verbatim>\<open>ForceObjectDeleteMessage\<close> twice, and the second entry
  replaces the first.
\<close>

theorem force_delete_routed_to_force_handler:
  "route (ForceObjectDeleteMessage k) = Some handle_force_delete_object_msg
   \<and> (\<forall>t. message_router t \<noteq> Some handle_delete_object_msg)
   \<and> (ForceObjectDeleteMessage_type, handle_delete_object_msg) \<in> set message_router_entries
   \<and> dict_display (take 6 message_router_entries) ForceObjectDeleteMessage_type
       = Some handle_delete_object_msg"
  by (simp add: route_def message_router_def message_router_entries_def dict_display_def)

end
